theory Spec2Isabelle
  imports Complex_Main "HOL-Library.Monad_Syntax"
begin

section \<open>Python values and the operations the scripts apply to them\<close>

text \<open>
  The three scripts (\<^verbatim>\<open>qwen-image-plus.py\<close>, \<^verbatim>\<open>seedream3.0&4.0.py\<close>,
  \<^verbatim>\<open>wan2.5-t2i-preview.py\<close>) each define a class \<^verbatim>\<open>SimpleImageGenerator\<close> with the
  same method names, so the models below carry the suffixes \<open>_qwen\<close>, \<open>_seedream\<close>
  and \<open>_wan\<close> where the bodies differ.

  Python exceptions are values of \<open>exc\<close>. All of them are subclasses of
  \<^verbatim>\<open>Exception\<close>: \<open>Timeout\<close> is \<^verbatim>\<open>requests.exceptions.Timeout\<close>, \<open>JSONDecodeError\<close> is
  what \<^verbatim>\<open>response.json()\<close> raises on a body that is not JSON, \<open>IndexError\<close> is raised
  by an index out of range, and \<open>OtherError\<close> stands for every other subclass
  (\<^verbatim>\<open>TypeError\<close>, \<^verbatim>\<open>KeyError\<close>, \<^verbatim>\<open>AttributeError\<close>, \<^verbatim>\<open>binascii.Error\<close>,
  \<^verbatim>\<open>ConnectionError\<close>, \<^verbatim>\<open>OSError\<close>, ...), which the scripts never tell apart.
\<close>

datatype exc = Timeout | JSONDecodeError | IndexError | OtherError

type_synonym bytes = "char list"

subsection \<open>Strings\<close>

text \<open>
  \<^verbatim>\<open>str.strip()\<close> removes the characters for which \<^verbatim>\<open>str.isspace()\<close> holds from both
  ends. A \<open>char\<close> is a code point below 256 here; the white space among them is
  U+0009..U+000D, U+001C..U+0020, U+0085 and U+00A0.
\<close>

definition isspace :: "char \<Rightarrow> bool" where
  "isspace c =
     (let n = (of_char c :: nat)
      in (9 \<le> n \<and> n \<le> 13) \<or> (28 \<le> n \<and> n \<le> 32) \<or> n = 133 \<or> n = 160)"

definition strip :: "string \<Rightarrow> string" where
  "strip s = rev (dropWhile isspace (rev (dropWhile isspace s)))"

text \<open>\<^verbatim>\<open>str.lower()\<close> on code points below 256: A..Z and the Latin-1 capitals.\<close>

definition lower_char :: "char \<Rightarrow> char" where
  "lower_char c =
     (let n = (of_char c :: nat)
      in if (65 \<le> n \<and> n \<le> 90) \<or> (192 \<le> n \<and> n \<le> 222 \<and> n \<noteq> 215)
         then char_of (n + 32) else c)"

definition lower :: "string \<Rightarrow> string" where
  "lower s = map lower_char s"

definition startswith :: "string \<Rightarrow> string \<Rightarrow> bool" where
  "startswith s p = (take (length p) s = p)"

fun contains_str :: "string \<Rightarrow> string \<Rightarrow> bool" where
  "contains_str p [] = (p = [])"
| "contains_str p (c # cs) = (startswith (c # cs) p \<or> contains_str p cs)"

text \<open>Decimal digits, for \<^verbatim>\<open>str(n)\<close> and for the format \<^verbatim>\<open>{row_num:04d}\<close>.\<close>

fun str_nat :: "nat \<Rightarrow> string" where
  "str_nat n =
     (if n < 10 then [''0123456789'' ! n]
      else str_nat (n div 10) @ [''0123456789'' ! (n mod 10)])"

declare str_nat.simps [simp del]

definition str_int :: "int \<Rightarrow> string" where
  "str_int i = (if i < 0 then CHR ''-'' # str_nat (nat (- i)) else str_nat (nat i))"

definition format_04d :: "int \<Rightarrow> string" where
  "format_04d i =
     (if i < 0
      then CHR ''-'' # replicate (3 - length (str_nat (nat (- i)))) CHR ''0'' @ str_nat (nat (- i))
      else replicate (4 - length (str_nat (nat i))) CHR ''0'' @ str_nat (nat i))"

text \<open>\<^verbatim>\<open>os.path.join(output_dir, filename)\<close> for a relative file name.\<close>

definition path_join :: "string \<Rightarrow> string \<Rightarrow> string" where
  "path_join d f =
     (if d = [] then f else if last d = CHR ''/'' then d @ f else d @ ''/'' @ f)"

section \<open>Row Source: \<^verbatim>\<open>read_texts_from_excel\<close>\<close>

text \<open>
  The data frame that \<^verbatim>\<open>pd.read_excel\<close> returns is a list of rows, each a list of
  cells, in the order of \<^verbatim>\<open>df.iterrows()\<close> with the default index 0, 1, 2, ...
  With \<^verbatim>\<open>has_header\<close> the first spreadsheet row has already been taken as the column
  names and is not among the rows. A cell holds a string, a missing value
  (\<^verbatim>\<open>float('nan')\<close>), \<^verbatim>\<open>None\<close>, an integer or a Boolean; \<open>str_cell\<close> is Python's
  \<^verbatim>\<open>str\<close> on it.
\<close>

datatype cell = CellStr string | CellNaN | CellNone | CellInt int | CellBool bool

fun str_cell :: "cell \<Rightarrow> string" where
  "str_cell (CellStr s) = s"
| "str_cell CellNaN = ''nan''"
| "str_cell CellNone = ''None''"
| "str_cell (CellInt i) = str_int i"
| "str_cell (CellBool b) = (if b then ''True'' else ''False'')"

text \<open>
  \<^verbatim>\<open>row.iloc[column_index]\<close>: a negative index counts from the end, an index outside
  the row raises \<^verbatim>\<open>IndexError\<close>.
\<close>

definition iloc :: "cell list \<Rightarrow> int \<Rightarrow> exc + cell" where
  "iloc row i =
     (if 0 \<le> i \<and> i < int (length row) then Inr (row ! nat i)
      else if i < 0 \<and> - i \<le> int (length row) then Inr (row ! nat (int (length row) + i))
      else Inl IndexError)"

text \<open>The test \<^verbatim>\<open>text and text.lower() != 'nan' and text != 'None'\<close>.\<close>

definition valid_text :: "string \<Rightarrow> bool" where
  "valid_text text = (text \<noteq> [] \<and> lower text \<noteq> ''nan'' \<and> text \<noteq> ''None'')"

text \<open>
  The loop \<^verbatim>\<open>for idx, row in df.iterrows()\<close>, with the list \<^verbatim>\<open>texts\<close> it appends to
  as an accumulator. An exception leaves the loop; the handler of
  \<^verbatim>\<open>read_texts_from_excel\<close> prints it and raises it again.
\<close>

fun read_rows :: "int \<Rightarrow> int \<Rightarrow> int \<Rightarrow> cell list list \<Rightarrow> (int \<times> string) list
    \<Rightarrow> exc + (int \<times> string) list" where
  "read_rows column_index start_row idx [] texts = Inr texts"
| "read_rows column_index start_row idx (row # rest) texts =
     (let row_num = idx + start_row
      in if column_index < int (length row)
         then (case iloc row column_index of
                 Inl e \<Rightarrow> Inl e
               | Inr v \<Rightarrow>
                   (let text = strip (str_cell v)
                    in if valid_text text
                       then read_rows column_index start_row (idx + 1) rest
                              (texts @ [(row_num, text)])
                       else read_rows column_index start_row (idx + 1) rest texts))
         else read_rows column_index start_row (idx + 1) rest texts)"

definition read_texts_from_excel :: "cell list list \<Rightarrow> int \<Rightarrow> bool \<Rightarrow> exc + (int \<times> string) list" where
  "read_texts_from_excel df column_index has_header =
     (let start_row = (if has_header then 2 else 1)
      in read_rows column_index start_row 0 df [])"


text \<open>
  For stating the properties of the Row Source: what a single row contributes to the
  result, whether it contributes at all, the row number of the row at a 0-based
  position, and the trimmed text of a cell.
\<close>

definition entry :: "int \<Rightarrow> int \<Rightarrow> int \<Rightarrow> cell list \<Rightarrow> (int \<times> string) list" where
  "entry ci st idx row =
     (if ci < int (length row)
      then (case iloc row ci of Inl e \<Rightarrow> []
            | Inr v \<Rightarrow> (if valid_text (strip (str_cell v)) then [(idx + st, strip (str_cell v))] else []))
      else [])"

definition kept :: "int \<Rightarrow> cell list \<Rightarrow> bool" where
  "kept ci row =
     (ci < int (length row) \<and>
      (case iloc row ci of Inl e \<Rightarrow> False | Inr v \<Rightarrow> valid_text (strip (str_cell v))))"

definition row_number :: "bool \<Rightarrow> nat \<Rightarrow> int" where
  "row_number has_header idx = int idx + (if has_header then 2 else 1)"


definition sheet_example :: "cell list list" where
  "sheet_example =
     [[CellStr ''a ''], [CellNaN], [CellStr '' NaN''], [CellStr ''None''], [CellInt 42], [],
      [CellStr '' ''], [CellStr ''cat'', CellStr ''x'']]"


subsection \<open>The spreadsheet before \<^verbatim>\<open>pd.read_excel\<close>\<close>











section \<open>JSON values\<close>

text \<open>
  What \<^verbatim>\<open>response.json()\<close> returns: \<^verbatim>\<open>None\<close>, a Boolean, a number, a string, a list
  or a dict with string keys (an association list read with \<open>map_of\<close>). A number is
  an integer here; the scripts only test numbers for truth and fail on them otherwise,
  which a float does alike.

  The operations below are Python's on such a value. An operation that can raise returns
  an option, \<open>None\<close> standing for the exception (\<^verbatim>\<open>TypeError\<close>, \<^verbatim>\<open>KeyError\<close>,
  \<^verbatim>\<open>IndexError\<close> or \<^verbatim>\<open>AttributeError\<close>), so that \<open>do\<close> blocks propagate it as
  Python does.
\<close>

datatype json =
    JNull
  | JBool bool
  | JNum int
  | JStr string
  | JArr "json list"
  | JObj "(string \<times> json) list"

text \<open>The truth value of \<^verbatim>\<open>if x:\<close>.\<close>

fun truthy :: "json \<Rightarrow> bool" where
  "truthy JNull = False"
| "truthy (JBool b) = b"
| "truthy (JNum n) = (n \<noteq> 0)"
| "truthy (JStr s) = (s \<noteq> [])"
| "truthy (JArr xs) = (xs \<noteq> [])"
| "truthy (JObj kvs) = (kvs \<noteq> [])"

text \<open>\<^verbatim>\<open>isinstance(x, dict)\<close> and \<^verbatim>\<open>isinstance(x, str)\<close>.\<close>

fun is_dict :: "json \<Rightarrow> bool" where
  "is_dict (JObj kvs) = True"
| "is_dict x = False"

fun is_str :: "json \<Rightarrow> bool" where
  "is_str (JStr s) = True"
| "is_str x = False"

text \<open>
  \<^verbatim>\<open>"k" in x\<close>: a key of a dict, an element of a list, a substring of a string; any
  other value is not iterable.
\<close>

fun py_in :: "string \<Rightarrow> json \<Rightarrow> bool option" where
  "py_in k (JObj kvs) = Some (map_of kvs k \<noteq> None)"
| "py_in k (JArr xs) = Some (JStr k \<in> set xs)"
| "py_in k (JStr s) = Some (contains_str k s)"
| "py_in k x = None"

text \<open>\<^verbatim>\<open>x["k"]\<close>: only a dict takes a string subscript, and the key must be there.\<close>

fun py_getitem :: "json \<Rightarrow> string \<Rightarrow> json option" where
  "py_getitem (JObj kvs) k = map_of kvs k"
| "py_getitem x k = None"

text \<open>
  \<^verbatim>\<open>x[0]\<close>: the first element of a list, the first character of a string; an empty
  sequence, a dict (its keys are strings) and every other value raise.
\<close>

fun py_first :: "json \<Rightarrow> json option" where
  "py_first (JArr xs) = (case xs of [] \<Rightarrow> None | y # ys \<Rightarrow> Some y)"
| "py_first (JStr s) = (case s of [] \<Rightarrow> None | c # cs \<Rightarrow> Some (JStr [c]))"
| "py_first x = None"

text \<open>\<^verbatim>\<open>x.get("k", d)\<close>: only a dict has the method.\<close>

fun py_get :: "json \<Rightarrow> string \<Rightarrow> json \<Rightarrow> json option" where
  "py_get (JObj kvs) k d = Some (case map_of kvs k of None \<Rightarrow> d | Some v \<Rightarrow> v)"
| "py_get x k d = None"

text \<open>\<^verbatim>\<open>len(x)\<close>.\<close>

fun py_len :: "json \<Rightarrow> nat option" where
  "py_len (JArr xs) = Some (length xs)"
| "py_len (JStr s) = Some (length s)"
| "py_len (JObj kvs) = Some (length kvs)"
| "py_len x = None"

text \<open>\<^verbatim>\<open>x[:100]\<close>, which the scripts evaluate to print a URL: a string or a list.\<close>

fun py_slice :: "json \<Rightarrow> unit option" where
  "py_slice (JStr s) = Some ()"
| "py_slice (JArr xs) = Some ()"
| "py_slice x = None"

text \<open>\<^verbatim>\<open>x.startswith("http")\<close>: only a string has the method.\<close>

fun py_startswith_http :: "json \<Rightarrow> bool option" where
  "py_startswith_http (JStr s) = Some (startswith s ''http'')"
| "py_startswith_http x = None"

section \<open>The world outside the scripts\<close>

text \<open>
  A call of \<^verbatim>\<open>requests.post\<close> or \<^verbatim>\<open>requests.get\<close> raises or returns a response with a
  status code and a body. The body of an API response is JSON or not
  (\<^verbatim>\<open>response.json()\<close> raises \<^verbatim>\<open>JSONDecodeError\<close> on it); the body of an image download
  is \<^verbatim>\<open>response.content\<close>.
\<close>

datatype body = NotJson | Json json

datatype 'b response = Raises exc | Response int 'b

text \<open>
  Everything a script does not compute itself is a field of \<open>world\<close>:
  \<^item> \<open>b64decode\<close>: \<^verbatim>\<open>base64.b64decode\<close> on a string, \<open>None\<close> when it raises;
  \<^item> \<open>image_valid\<close>: whether \<^verbatim>\<open>Image.open(BytesIO(data))\<close> and \<^verbatim>\<open>image.save\<close> succeed;
  \<^item> \<open>post\<close>: the answer to \<^verbatim>\<open>requests.post(self.api_url, ...)\<close> for a prompt, by the
    number of posts made for it before;
  \<^item> \<open>get_image\<close>: the answer to \<^verbatim>\<open>requests.get(image_url, timeout=30)\<close>;
  \<^item> \<open>get_task\<close>: the answer to the status query for a task id, by the number of the
    query (asynchronous script only);
  \<^item> \<open>now\<close>: \<^verbatim>\<open>int(time.time())\<close>.
  Writing into the output directory is taken to succeed, apart from saving an image.
\<close>

record world =
  b64decode :: "string \<Rightarrow> bytes option"
  image_valid :: "bytes \<Rightarrow> bool"
  post :: "string \<Rightarrow> nat \<Rightarrow> body response"
  get_image :: "json \<Rightarrow> bytes response"
  get_task :: "json \<Rightarrow> nat \<Rightarrow> body response"
  now :: int

text \<open>
  What a run does to the outside, in order. \<open>Extract\<close> marks the call of
  \<^verbatim>\<open>extract_image_from_result\<close> and \<open>PrintReason\<close> the line that prints the reason of
  a failed task; the rest of the console output is not recorded. \<open>Row n evs\<close> is
  the call \<^verbatim>\<open>generate_image(text, n)\<close> of the batch loop with what it did.
\<close>

datatype event =
    HttpPost
  | HttpGetTask
  | HttpGetImage json
  | Sleep real
  | WriteDebug
  | SaveImage string
  | Extract
  | PrintReason json
  | Row int "event list"
  | WriteReport

text \<open>
  How the body of a loop ends: \<^verbatim>\<open>return\<close>, \<^verbatim>\<open>break\<close>, \<^verbatim>\<open>continue\<close>, or its last statement.
\<close>

datatype 'a ctl = Return 'a | Break | Continue | FallThrough

text \<open>\<^verbatim>\<open>base64.b64decode(x)\<close> on a JSON value: only a string is accepted.\<close>

fun py_b64decode :: "world \<Rightarrow> json \<Rightarrow> bytes option" where
  "py_b64decode w (JStr s) = b64decode w s"
| "py_b64decode w x = None"

text \<open>The path \<^verbatim>\<open>os.path.join(self.output_dir, f"row_{row_num:04d}.png")\<close>.\<close>

definition image_path :: "string \<Rightarrow> int \<Rightarrow> string" where
  "image_path output_dir row_num = path_join output_dir (''row_'' @ format_04d row_num @ ''.png'')"

text \<open>
  The loop \<^verbatim>\<open>for attempt in range(retry_count)\<close> followed by \<^verbatim>\<open>return None\<close>, for a
  loop body \<open>step\<close>. An exception that the body lets through leaves the function.
\<close>

fun for_attempts :: "(nat \<Rightarrow> event list \<times> (exc + string ctl)) \<Rightarrow> nat list
    \<Rightarrow> event list \<times> (exc + string option)" where
  "for_attempts step [] = ([], Inr None)"
| "for_attempts step (attempt # rest) =
     (case step attempt of
        (evs, Inl e) \<Rightarrow> (evs, Inl e)
      | (evs, Inr (Return filepath)) \<Rightarrow> (evs, Inr (Some filepath))
      | (evs, Inr Break) \<Rightarrow> (evs, Inr None)
      | (evs, Inr Continue) \<Rightarrow>
          (case for_attempts step rest of (evs', r) \<Rightarrow> (evs @ evs', r))
      | (evs, Inr FallThrough) \<Rightarrow>
          (case for_attempts step rest of (evs', r) \<Rightarrow> (evs @ evs', r)))"

text \<open>
  The statements after the \<^verbatim>\<open>try\<close> of the loop body, reached when the \<^verbatim>\<open>try\<close> ended
  normally or in a handler: \<^verbatim>\<open>if attempt < retry_count - 1: time.sleep(2 ** attempt)\<close>.
\<close>

definition backoff :: "nat \<Rightarrow> int \<Rightarrow> event list" where
  "backoff attempt retry_count =
     (if int attempt < retry_count - 1 then [Sleep (2 ^ attempt)] else [])"

text \<open>
  Saving, shared by the three scripts: \<^verbatim>\<open>if image_data:\<close> then open and save the
  image and return the path; an invalid image and no data both reach the end of the
  \<^verbatim>\<open>try\<close>.
\<close>

definition save_image :: "world \<Rightarrow> string \<Rightarrow> int \<Rightarrow> bytes option \<Rightarrow> event list \<times> string ctl" where
  "save_image w output_dir row_num image_data =
     (case image_data of
        None \<Rightarrow> ([], FallThrough)
      | Some data \<Rightarrow>
          if data \<noteq> [] \<and> image_valid w data
          then ([SaveImage (image_path output_dir row_num)], Return (image_path output_dir row_num))
          else ([], FallThrough))"

section \<open>Synchronous adapter of \<^verbatim>\<open>qwen-image-plus.py\<close>\<close>

text \<open>
  \<^verbatim>\<open>a and b\<close> where both sides can raise: \<open>b\<close> is not evaluated when \<open>a\<close> is false.
\<close>

definition py_and :: "bool option \<Rightarrow> bool option \<Rightarrow> bool option" where
  "py_and a b = do { x \<leftarrow> a; if x then b else Some False }"

text \<open>The test \<^verbatim>\<open>if xs and len(xs) > 0\<close>.\<close>

definition nonempty :: "json \<Rightarrow> bool option" where
  "nonempty xs = py_and (Some (truthy xs)) (do { n \<leftarrow> py_len xs; Some (0 < n) })"

text \<open>The test \<^verbatim>\<open>"k" in result and result["k"]\<close>.\<close>

definition has_truthy :: "string \<Rightarrow> json \<Rightarrow> bool option" where
  "has_truthy k result = py_and (py_in k result) (do { v \<leftarrow> py_getitem result k; Some (truthy v) })"

text \<open>
  A parser returns the pair \<^verbatim>\<open>(image_data, image_url)\<close>; both start as \<^verbatim>\<open>None\<close>. The
  outer option is \<open>None\<close> when an exception leaves the parsing code for the handlers of
  the attempt. A \<^verbatim>\<open>try\<close> with a bare \<^verbatim>\<open>except\<close> around a decoding leaves \<^verbatim>\<open>image_data\<close>
  as it was.
\<close>

type_synonym parsed = "bytes option \<times> json"

definition nothing :: parsed where
  "nothing = (None, JNull)"

text \<open>First shape (lines 148--155): \<^verbatim>\<open>result["images"][0]\<close>, decoded when it is a string.\<close>

definition images_shape_qwen :: "world \<Rightarrow> json \<Rightarrow> parsed option" where
  "images_shape_qwen w result = do {
     images \<leftarrow> py_getitem result ''images'';
     first \<leftarrow> py_first images;
     Some (if is_str first then py_b64decode w first else None, JNull)
   }"

text \<open>
  Second shape (lines 158--180), from the innermost test outwards:
  \<^verbatim>\<open>output.choices[0].message.content[0].image\<close>. The value of \<^verbatim>\<open>image\<close> becomes
  \<^verbatim>\<open>image_url\<close>; when it does not start with "http" it is also decoded as base64, and
  \<^verbatim>\<open>image_url\<close> keeps it.
\<close>

definition content_item_qwen :: "world \<Rightarrow> json \<Rightarrow> parsed option" where
  "content_item_qwen w content = do {
     has_image \<leftarrow> py_and (Some (is_dict content)) (py_in ''image'' content);
     if has_image then do {
       image_url \<leftarrow> py_get content ''image'' JNull;
       is_http \<leftarrow> py_and (Some (truthy image_url)) (py_startswith_http image_url);
       if is_http then do { _ \<leftarrow> py_slice image_url; Some (None, image_url) }
       else Some (Option.bind (py_get content ''image'' (JStr [])) (py_b64decode w), image_url)
     } else Some nothing
   }"

definition message_qwen :: "world \<Rightarrow> json \<Rightarrow> parsed option" where
  "message_qwen w message = do {
     has_content \<leftarrow> py_and (Some (is_dict message)) (py_in ''content'' message);
     if has_content then do {
       contents \<leftarrow> py_get message ''content'' (JArr []);
       some \<leftarrow> nonempty contents;
       if some then do { content \<leftarrow> py_first contents; content_item_qwen w content }
       else Some nothing
     } else Some nothing
   }"

definition choice_qwen :: "world \<Rightarrow> json \<Rightarrow> parsed option" where
  "choice_qwen w choice = do {
     has_message \<leftarrow> py_and (Some (is_dict choice)) (py_in ''message'' choice);
     if has_message then do {
       message \<leftarrow> py_get choice ''message'' (JObj []);
       message_qwen w message
     } else Some nothing
   }"

definition output_shape_qwen :: "world \<Rightarrow> json \<Rightarrow> parsed option" where
  "output_shape_qwen w result = do {
     output \<leftarrow> py_get result ''output'' (JObj []);
     has_choices \<leftarrow> py_and (Some (is_dict output)) (py_in ''choices'' output);
     if has_choices then do {
       choices \<leftarrow> py_get output ''choices'' (JArr []);
       some \<leftarrow> nonempty choices;
       if some then do { choice \<leftarrow> py_first choices; choice_qwen w choice }
       else Some nothing
     } else Some nothing
   }"

text \<open>
  Third shape (lines 183--195): \<^verbatim>\<open>data[0]\<close> with \<^verbatim>\<open>url\<close>, else with \<^verbatim>\<open>b64_json\<close>.
\<close>

definition data_shape_qwen :: "world \<Rightarrow> json \<Rightarrow> parsed option" where
  "data_shape_qwen w result = do {
     data_list \<leftarrow> py_get result ''data'' (JArr []);
     some \<leftarrow> nonempty data_list;
     if some then do {
       item \<leftarrow> py_first data_list;
       has_url \<leftarrow> py_in ''url'' item;
       if has_url then do {
         image_url \<leftarrow> py_get item ''url'' JNull;
         _ \<leftarrow> py_slice image_url;
         Some (None, image_url)
       } else do {
         has_b64 \<leftarrow> py_in ''b64_json'' item;
         if has_b64
         then Some (Option.bind (py_get item ''b64_json'' (JStr [])) (py_b64decode w), JNull)
         else Some nothing
       }
     } else Some nothing
   }"

text \<open>The \<^verbatim>\<open>if\<close>/\<^verbatim>\<open>elif\<close>/\<^verbatim>\<open>elif\<close> chain of lines 146--195.\<close>

definition parse_response_qwen :: "world \<Rightarrow> json \<Rightarrow> parsed option" where
  "parse_response_qwen w result =
     (if is_dict result then do {
        images \<leftarrow> has_truthy ''images'' result;
        if images then images_shape_qwen w result
        else do {
          output \<leftarrow> py_in ''output'' result;
          if output then output_shape_qwen w result
          else do {
            data \<leftarrow> has_truthy ''data'' result;
            if data then data_shape_qwen w result else Some nothing
          }
        }
      } else Some nothing)"

text \<open>
  Lines 198--208: \<^verbatim>\<open>if image_url:\<close> download it; everything raised there is caught, and
  only a response with status 200 replaces \<^verbatim>\<open>image_data\<close>.
\<close>

definition download_qwen :: "world \<Rightarrow> parsed \<Rightarrow> event list \<times> bytes option" where
  "download_qwen w p =
     (case p of (image_data, image_url) \<Rightarrow>
        if truthy image_url
        then (case py_slice image_url of
                None \<Rightarrow> ([], image_data)
              | Some _ \<Rightarrow>
                  (case get_image w image_url of
                     Raises e \<Rightarrow> ([HttpGetImage image_url], image_data)
                   | Response status content \<Rightarrow>
                       ([HttpGetImage image_url], if status = 200 then Some content else image_data)))
        else ([], image_data))"

text \<open>The branch \<^verbatim>\<open>if response.status_code == 200\<close> of the \<^verbatim>\<open>try\<close> (lines 131--231).\<close>

definition on_200_qwen :: "world \<Rightarrow> string \<Rightarrow> int \<Rightarrow> body \<Rightarrow> event list \<times> (exc + string ctl)" where
  "on_200_qwen w output_dir row_num b =
     (case b of
        NotJson \<Rightarrow> ([], Inl JSONDecodeError)
      | Json result \<Rightarrow>
          (case parse_response_qwen w result of
             None \<Rightarrow> ([WriteDebug], Inl OtherError)
           | Some p \<Rightarrow>
               (case download_qwen w p of (evs, image_data) \<Rightarrow>
                  (case save_image w output_dir row_num image_data of (evs', c) \<Rightarrow>
                     (WriteDebug # evs @ evs', Inr c)))))"

text \<open>The \<^verbatim>\<open>try\<close> block of one attempt (lines 109--246).\<close>

definition try_qwen :: "world \<Rightarrow> string \<Rightarrow> string \<Rightarrow> int \<Rightarrow> nat \<Rightarrow> event list \<times> (exc + string ctl)" where
  "try_qwen w output_dir prompt row_num attempt =
     (case post w prompt attempt of
        Raises e \<Rightarrow> ([HttpPost], Inl e)
      | Response status b \<Rightarrow>
          if status = 200
          then (case on_200_qwen w output_dir row_num b of (evs, r) \<Rightarrow> (HttpPost # evs, r))
          else if status = 429
          then ([HttpPost, Sleep (of_nat ((attempt + 1) * 10))], Inr Continue)
          else if status = 401 then ([HttpPost], Inr Break)
          else if status = 400 then ([HttpPost], Inr Break)
          else ([HttpPost], Inr FallThrough))"

text \<open>
  The loop body: the \<^verbatim>\<open>try\<close> with its three handlers (\<^verbatim>\<open>Timeout\<close>, \<^verbatim>\<open>JSONDecodeError\<close>,
  \<^verbatim>\<open>Exception\<close>), each of which only prints, and then the wait before the next attempt.
\<close>

definition attempt_qwen :: "world \<Rightarrow> string \<Rightarrow> string \<Rightarrow> int \<Rightarrow> int \<Rightarrow> nat
    \<Rightarrow> event list \<times> (exc + string ctl)" where
  "attempt_qwen w output_dir prompt row_num retry_count attempt =
     (case try_qwen w output_dir prompt row_num attempt of
        (evs, Inl Timeout) \<Rightarrow> (evs @ backoff attempt retry_count, Inr FallThrough)
      | (evs, Inl JSONDecodeError) \<Rightarrow> (evs @ backoff attempt retry_count, Inr FallThrough)
      | (evs, Inl e) \<Rightarrow> (evs @ backoff attempt retry_count, Inr FallThrough)
      | (evs, Inr FallThrough) \<Rightarrow> (evs @ backoff attempt retry_count, Inr FallThrough)
      | (evs, Inr c) \<Rightarrow> (evs, Inr c))"

text \<open>
  \<^verbatim>\<open>generate_image(prompt, row_num, retry_count)\<close>; without a row number the time stamp
  takes its place.
\<close>

definition generate_image_qwen :: "world \<Rightarrow> string \<Rightarrow> string \<Rightarrow> int option \<Rightarrow> int
    \<Rightarrow> event list \<times> (exc + string option)" where
  "generate_image_qwen w output_dir prompt row_num retry_count =
     (let row = (case row_num of None \<Rightarrow> now w | Some n \<Rightarrow> n)
      in for_attempts (attempt_qwen w output_dir prompt row retry_count) [0..<nat retry_count])"

section \<open>Synchronous adapter of \<^verbatim>\<open>seedream3.0&4.0.py\<close>\<close>

text \<open>
  Lines 116--123. There are two shapes, \<^verbatim>\<open>images\<close> and \<^verbatim>\<open>data\<close>; nothing is wrapped in
  an inner \<^verbatim>\<open>try\<close>, so a failed decoding and a failed download raise into the handlers
  of the attempt. Under \<^verbatim>\<open>data\<close> the key \<^verbatim>\<open>b64_json\<close> is looked for before \<^verbatim>\<open>url\<close>.
  \<open>select_seedream\<close> is the chain of tests up to the value that is then decoded or
  downloaded (\<open>None\<close> when a test raises); \<open>parse_response_seedream\<close> decodes or
  downloads it, and takes the content of the download whatever its status code is. The
  result is the events and \<^verbatim>\<open>image_data\<close>, or the exception raised after the events.
\<close>

datatype source = NoSource | Inline json | Url json

definition data_item_seedream :: "json \<Rightarrow> json option" where
  "data_item_seedream result = do { d \<leftarrow> py_getitem result ''data''; py_first d }"

definition select_seedream :: "json \<Rightarrow> source option" where
  "select_seedream result = do {
     images \<leftarrow> py_and (Some (is_dict result)) (has_truthy ''images'' result);
     if images then do {
       images \<leftarrow> py_getitem result ''images'';
       first \<leftarrow> py_first images;
       Some (Inline first)
     } else do {
       data \<leftarrow> py_and (Some (is_dict result)) (has_truthy ''data'' result);
       if data then do {
         item \<leftarrow> data_item_seedream result;
         has_b64 \<leftarrow> py_in ''b64_json'' item;
         if has_b64 then do { v \<leftarrow> py_getitem item ''b64_json''; Some (Inline v) }
         else do {
           has_url \<leftarrow> py_in ''url'' item;
           if has_url then do { url \<leftarrow> py_getitem item ''url''; Some (Url url) }
           else Some NoSource
         }
       } else Some NoSource
     }
   }"

definition parse_response_seedream :: "world \<Rightarrow> json \<Rightarrow> event list \<times> (exc + bytes option)" where
  "parse_response_seedream w result =
     (case select_seedream result of
        None \<Rightarrow> ([], Inl OtherError)
      | Some NoSource \<Rightarrow> ([], Inr None)
      | Some (Inline v) \<Rightarrow>
          (case py_b64decode w v of
             None \<Rightarrow> ([], Inl OtherError)
           | Some data \<Rightarrow> ([], Inr (Some data)))
      | Some (Url url) \<Rightarrow>
          (case get_image w url of
             Raises e \<Rightarrow> ([HttpGetImage url], Inl e)
           | Response status content \<Rightarrow> ([HttpGetImage url], Inr (Some content))))"

text \<open>The branch \<^verbatim>\<open>if response.status_code == 200\<close> (lines 105--140).\<close>

definition on_200_seedream :: "world \<Rightarrow> string \<Rightarrow> int \<Rightarrow> body \<Rightarrow> event list \<times> (exc + string ctl)" where
  "on_200_seedream w output_dir row_num b =
     (case b of
        NotJson \<Rightarrow> ([], Inl JSONDecodeError)
      | Json result \<Rightarrow>
          (case parse_response_seedream w result of
             (evs, Inl e) \<Rightarrow> (evs, Inl e)
           | (evs, Inr image_data) \<Rightarrow>
               (case save_image w output_dir row_num image_data of (evs', c) \<Rightarrow>
                  (evs @ evs', Inr c))))"

text \<open>
  The \<^verbatim>\<open>try\<close> block of one attempt (lines 89--150): status 200, status 429, and
  \<^verbatim>\<open>else\<close> for every other status.
\<close>

definition try_seedream :: "world \<Rightarrow> string \<Rightarrow> string \<Rightarrow> int \<Rightarrow> nat \<Rightarrow> event list \<times> (exc + string ctl)" where
  "try_seedream w output_dir prompt row_num attempt =
     (case post w prompt attempt of
        Raises e \<Rightarrow> ([HttpPost], Inl e)
      | Response status b \<Rightarrow>
          if status = 200
          then (case on_200_seedream w output_dir row_num b of (evs, r) \<Rightarrow> (HttpPost # evs, r))
          else if status = 429
          then ([HttpPost, Sleep (of_nat ((attempt + 1) * 10))], Inr Continue)
          else ([HttpPost], Inr FallThrough))"

text \<open>
  The loop body: the \<^verbatim>\<open>try\<close> with its two handlers (\<^verbatim>\<open>Timeout\<close>, \<^verbatim>\<open>Exception\<close>), then
  \<^verbatim>\<open>if attempt < retry_count - 1: time.sleep(2 ** attempt)\<close>.
\<close>

definition attempt_seedream :: "world \<Rightarrow> string \<Rightarrow> string \<Rightarrow> int \<Rightarrow> int \<Rightarrow> nat
    \<Rightarrow> event list \<times> (exc + string ctl)" where
  "attempt_seedream w output_dir prompt row_num retry_count attempt =
     (case try_seedream w output_dir prompt row_num attempt of
        (evs, Inl Timeout) \<Rightarrow> (evs @ backoff attempt retry_count, Inr FallThrough)
      | (evs, Inl e) \<Rightarrow> (evs @ backoff attempt retry_count, Inr FallThrough)
      | (evs, Inr FallThrough) \<Rightarrow> (evs @ backoff attempt retry_count, Inr FallThrough)
      | (evs, Inr c) \<Rightarrow> (evs, Inr c))"

definition generate_image_seedream :: "world \<Rightarrow> string \<Rightarrow> string \<Rightarrow> int \<Rightarrow> int
    \<Rightarrow> event list \<times> (exc + string option)" where
  "generate_image_seedream w output_dir prompt row_num retry_count =
     for_attempts (attempt_seedream w output_dir prompt row_num retry_count) [0..<nat retry_count]"

section \<open>Asynchronous adapter of \<^verbatim>\<open>wan2.5-t2i-preview.py\<close>\<close>

text \<open>
  \<^verbatim>\<open>create_async_task\<close> (lines 78--123): one post; the task id is
  \<^verbatim>\<open>result["output"]["task_id"]\<close>; every failure, raised or not, gives \<^verbatim>\<open>None\<close>.
\<close>

definition task_id_of :: "json \<Rightarrow> json option option" where
  "task_id_of result = do {
     found \<leftarrow> py_and (py_in ''output'' result)
                (do { output \<leftarrow> py_getitem result ''output''; py_in ''task_id'' output });
     if found
     then do { output \<leftarrow> py_getitem result ''output'';
               task_id \<leftarrow> py_getitem output ''task_id'';
               Some (Some task_id) }
     else Some None
   }"

definition create_async_task :: "world \<Rightarrow> string \<Rightarrow> event list \<times> json option" where
  "create_async_task w prompt =
     (case post w prompt 0 of
        Raises e \<Rightarrow> ([HttpPost], None)
      | Response status b \<Rightarrow>
          if status = 200
          then (case b of
                  NotJson \<Rightarrow> ([HttpPost], None)
                | Json result \<Rightarrow>
                    (case task_id_of result of
                       None \<Rightarrow> ([HttpPost], None)
                     | Some r \<Rightarrow> ([HttpPost], r)))
          else ([HttpPost], None))"

text \<open>
  One pass through the body of the polling loop of \<^verbatim>\<open>get_task_result\<close>
  (lines 132--178): the query, then \<^verbatim>\<open>return result\<close> on \<^verbatim>\<open>SUCCEEDED\<close>, \<^verbatim>\<open>return None\<close>
  on \<^verbatim>\<open>FAILED\<close> (after printing the message when the output has one), and
  \<^verbatim>\<open>time.sleep(retry_interval)\<close> in every other case: status \<^verbatim>\<open>RUNNING\<close>, another status,
  no \<^verbatim>\<open>output\<close>, another status code, an exception.
\<close>

definition task_status_of :: "json \<Rightarrow> json option option" where
  "task_status_of result = do {
     has_output \<leftarrow> py_in ''output'' result;
     if has_output
     then do { output \<leftarrow> py_getitem result ''output'';
               task_status \<leftarrow> py_get output ''task_status'' (JStr ''UNKNOWN'');
               Some (Some task_status) }
     else Some None
   }"

definition failure_message :: "json \<Rightarrow> event list" where
  "failure_message result =
     (case do { output \<leftarrow> py_getitem result ''output'';
                has_message \<leftarrow> py_in ''message'' output;
                if has_message then py_getitem output ''message'' else None } of
        None \<Rightarrow> []
      | Some message \<Rightarrow> [PrintReason message])"

definition poll_task :: "world \<Rightarrow> json \<Rightarrow> real \<Rightarrow> nat \<Rightarrow> event list \<times> json option ctl" where
  "poll_task w task_id retry_interval attempt =
     (case get_task w task_id attempt of
        Raises e \<Rightarrow> ([HttpGetTask, Sleep retry_interval], FallThrough)
      | Response status b \<Rightarrow>
          if status = 200
          then (case b of
                  NotJson \<Rightarrow> ([HttpGetTask, Sleep retry_interval], FallThrough)
                | Json result \<Rightarrow>
                    (case task_status_of result of
                       None \<Rightarrow> ([HttpGetTask, WriteDebug, Sleep retry_interval], FallThrough)
                     | Some None \<Rightarrow> ([HttpGetTask, WriteDebug, Sleep retry_interval], FallThrough)
                     | Some (Some task_status) \<Rightarrow>
                         if task_status = JStr ''SUCCEEDED''
                         then ([HttpGetTask, WriteDebug], Return (Some result))
                         else if task_status = JStr ''FAILED''
                         then ([HttpGetTask, WriteDebug] @ failure_message result, Return None)
                         else if task_status = JStr ''RUNNING''
                         then ([HttpGetTask, WriteDebug, Sleep retry_interval], FallThrough)
                         else ([HttpGetTask, WriteDebug, Sleep retry_interval], FallThrough)))
          else ([HttpGetTask, Sleep retry_interval], FallThrough))"

text \<open>
  The loop \<^verbatim>\<open>for attempt in range(max_retries)\<close> of \<^verbatim>\<open>get_task_result\<close> and the
  \<^verbatim>\<open>return None\<close> after it.
\<close>

fun poll_attempts :: "world \<Rightarrow> json \<Rightarrow> real \<Rightarrow> nat list \<Rightarrow> event list \<times> json option" where
  "poll_attempts w task_id retry_interval [] = ([], None)"
| "poll_attempts w task_id retry_interval (attempt # rest) =
     (case poll_task w task_id retry_interval attempt of
        (evs, Return r) \<Rightarrow> (evs, r)
      | (evs, c) \<Rightarrow>
          (case poll_attempts w task_id retry_interval rest of (evs', r) \<Rightarrow> (evs @ evs', r)))"

definition get_task_result :: "world \<Rightarrow> json \<Rightarrow> int \<Rightarrow> real \<Rightarrow> event list \<times> json option" where
  "get_task_result w task_id max_retries retry_interval =
     poll_attempts w task_id retry_interval [0..<nat max_retries]"

text \<open>
  \<^verbatim>\<open>extract_image_from_result\<close> (lines 183--238). The first part finds
  \<^verbatim>\<open>(image_data, image_url)\<close> in \<^verbatim>\<open>output.results[0]\<close> or \<^verbatim>\<open>output.image\<close>; an exception
  there reaches the outer handler, which returns \<^verbatim>\<open>None\<close>. The second part downloads
  the URL; what is raised there is caught, and only status 200 replaces \<^verbatim>\<open>image_data\<close>.
\<close>

definition first_result_wan :: "world \<Rightarrow> json \<Rightarrow> parsed option" where
  "first_result_wan w first_result = do {
     has_url \<leftarrow> py_in ''url'' first_result;
     if has_url then do {
       image_url \<leftarrow> py_getitem first_result ''url'';
       _ \<leftarrow> py_slice image_url;
       Some (None, image_url)
     } else do {
       has_image \<leftarrow> py_in ''image'' first_result;
       if has_image
       then Some (Option.bind (py_getitem first_result ''image'') (py_b64decode w), JNull)
       else Some nothing
     }
   }"

definition parse_result_wan :: "world \<Rightarrow> json \<Rightarrow> parsed option" where
  "parse_result_wan w result = do {
     has_output \<leftarrow> py_in ''output'' result;
     if has_output then do {
       output \<leftarrow> py_getitem result ''output'';
       has_results \<leftarrow> has_truthy ''results'' output;
       if has_results then do {
         results \<leftarrow> py_getitem output ''results'';
         n \<leftarrow> py_len results;
         if 0 < n then do { first_result \<leftarrow> py_first results; first_result_wan w first_result }
         else Some nothing
       } else do {
         has_image \<leftarrow> py_in ''image'' output;
         if has_image
         then Some (Option.bind (py_getitem output ''image'') (py_b64decode w), JNull)
         else Some nothing
       }
     } else Some nothing
   }"

definition download_wan :: "world \<Rightarrow> parsed \<Rightarrow> event list \<times> bytes option" where
  "download_wan w p =
     (case p of (image_data, image_url) \<Rightarrow>
        if truthy image_url
        then (case get_image w image_url of
                Raises e \<Rightarrow> ([HttpGetImage image_url], image_data)
              | Response status content \<Rightarrow>
                  ([HttpGetImage image_url], if status = 200 then Some content else image_data))
        else ([], image_data))"

definition extract_image_from_result :: "world \<Rightarrow> json \<Rightarrow> event list \<times> bytes option" where
  "extract_image_from_result w result =
     (case parse_result_wan w result of
        None \<Rightarrow> ([Extract], None)
      | Some p \<Rightarrow> (case download_wan w p of (evs, image_data) \<Rightarrow> (Extract # evs, image_data)))"

text \<open>
  \<^verbatim>\<open>generate_image\<close> (lines 240--291): create the task, poll it with the defaults
  \<^verbatim>\<open>max_retries=30, retry_interval=30\<close>, extract, save. There is no retry loop, and each
  stage that fails returns \<^verbatim>\<open>None\<close>.
\<close>

definition generate_image_wan :: "world \<Rightarrow> string \<Rightarrow> string \<Rightarrow> int option
    \<Rightarrow> event list \<times> (exc + string option)" where
  "generate_image_wan w output_dir prompt row_num =
     (let row = (case row_num of None \<Rightarrow> now w | Some n \<Rightarrow> n)
      in case create_async_task w prompt of
           (evs1, None) \<Rightarrow> (evs1, Inr None)
         | (evs1, Some task_id) \<Rightarrow>
             if \<not> truthy task_id then (evs1, Inr None)
             else (case get_task_result w task_id 30 30 of
                     (evs2, None) \<Rightarrow> (evs1 @ evs2, Inr None)
                   | (evs2, Some task_result) \<Rightarrow>
                       if \<not> truthy task_result then (evs1 @ evs2, Inr None)
                       else (case extract_image_from_result w task_result of
                               (evs3, image_data) \<Rightarrow>
                                 (case save_image w output_dir row image_data of
                                    (evs4, Return filepath) \<Rightarrow>
                                      (evs1 @ evs2 @ evs3 @ evs4, Inr (Some filepath))
                                  | (evs4, c) \<Rightarrow> (evs1 @ evs2 @ evs3 @ evs4, Inr None)))))"

section \<open>Batch Driver: \<^verbatim>\<open>batch_generate\<close> and \<^verbatim>\<open>generate_from_excel\<close>\<close>

text \<open>
  The loop of \<^verbatim>\<open>batch_generate\<close> is the same in the three scripts but for the keyword
  arguments handed on to \<^verbatim>\<open>generate_image\<close>, so the model takes the bound method
  \<^verbatim>\<open>self.generate_image\<close> as the parameter \<open>gen\<close>, applied to the text and the row
  number. \<open>n\<close> is \<^verbatim>\<open>len(texts)\<close> of the whole list, and the two lists being appended
  to are accumulators. \<^verbatim>\<open>if result:\<close> holds for a path that is not empty. An exception
  raised by \<open>gen\<close> is not caught here.
\<close>

type_synonym generator = "string \<Rightarrow> int \<Rightarrow> event list \<times> (exc + string option)"

definition result_ok :: "string option \<Rightarrow> bool" where
  "result_ok result = (case result of None \<Rightarrow> False | Some filepath \<Rightarrow> filepath \<noteq> [])"

fun batch_rows :: "generator \<Rightarrow> real \<Rightarrow> nat \<Rightarrow> (int \<times> string) list \<Rightarrow> int list \<Rightarrow> int list
    \<Rightarrow> event list \<times> (exc + int list \<times> int list)" where
  "batch_rows gen delay n [] success_rows failed_rows = ([], Inr (success_rows, failed_rows))"
| "batch_rows gen delay n ((row_num, text) # rest) success_rows failed_rows =
     (case gen text row_num of
        (evs, Inl e) \<Rightarrow> ([Row row_num evs], Inl e)
      | (evs, Inr result) \<Rightarrow>
          (case batch_rows gen delay n rest
                  (if result_ok result then success_rows @ [row_num] else success_rows)
                  (if result_ok result then failed_rows else failed_rows @ [row_num]) of
             (evs', r) \<Rightarrow>
               (Row row_num evs # (if 0 < delay \<and> 1 < n then [Sleep delay] else []) @ evs', r)))"

definition batch_generate :: "generator \<Rightarrow> (int \<times> string) list \<Rightarrow> real
    \<Rightarrow> event list \<times> (exc + int list \<times> int list)" where
  "batch_generate gen texts delay = batch_rows gen delay (length texts) texts [] []"

text \<open>The dict that \<^verbatim>\<open>generate_from_excel\<close> returns.\<close>

record report =
  total :: nat
  success :: nat
  failed :: nat
  success_rows :: "int list"
  failed_rows :: "int list"

text \<open>
  \<^verbatim>\<open>generate_from_excel\<close>: read the texts, return \<^verbatim>\<open>None\<close> when there are none,
  otherwise run the batch, write the report and return the counts. The data frame is
  the one \<^verbatim>\<open>pd.read_excel\<close> produced.
\<close>

definition generate_from_excel :: "generator \<Rightarrow> cell list list \<Rightarrow> int \<Rightarrow> bool \<Rightarrow> real
    \<Rightarrow> event list \<times> (exc + report option)" where
  "generate_from_excel gen df column_index has_header delay =
     (case read_texts_from_excel df column_index has_header of
        Inl e \<Rightarrow> ([], Inl e)
      | Inr texts \<Rightarrow>
          if texts = [] then ([], Inr None)
          else (case batch_generate gen texts delay of
                  (evs, Inl e) \<Rightarrow> (evs, Inl e)
                | (evs, Inr (ok, bad)) \<Rightarrow>
                    (evs @ [WriteReport],
                     Inr (Some \<lparr>total = length texts, success = length ok, failed = length bad,
                                success_rows = ok, failed_rows = bad\<rparr>))))"

text \<open>
  A generator never raises when each call returns a path or \<^verbatim>\<open>None\<close>. What the
  batch loop does for one row: the call alone, or the call and the wait after it.
\<close>

definition never_raises :: "generator \<Rightarrow> bool" where
  "never_raises gen = (\<forall>text row_num. \<exists>evs r. gen text row_num = (evs, Inr r))"

definition row_and_delay :: "generator \<Rightarrow> real \<Rightarrow> int \<times> string \<Rightarrow> event list" where
  "row_and_delay gen delay p = [Row (fst p) (fst (gen (snd p) (fst p))), Sleep delay]"

definition row_alone :: "generator \<Rightarrow> int \<times> string \<Rightarrow> event list" where
  "row_alone gen p = [Row (fst p) (fst (gen (snd p) (fst p)))]"

text \<open>The three scripts' own generators, with the default \<^verbatim>\<open>retry_count=3\<close>.\<close>

definition gen_qwen :: "world \<Rightarrow> string \<Rightarrow> generator" where
  "gen_qwen w output_dir text row_num = generate_image_qwen w output_dir text (Some row_num) 3"

definition gen_seedream :: "world \<Rightarrow> string \<Rightarrow> generator" where
  "gen_seedream w output_dir text row_num = generate_image_seedream w output_dir text row_num 3"

definition gen_wan :: "world \<Rightarrow> string \<Rightarrow> generator" where
  "gen_wan w output_dir text row_num = generate_image_wan w output_dir text (Some row_num)"

section \<open>Counting what a run did\<close>

text \<open>
  The number of submissions, of status queries and of calls of
  \<^verbatim>\<open>extract_image_from_result\<close> in a trace, and the number of waits at the top of a
  batch trace: the waits between rows, those of a row being inside its \<open>Row\<close>.
\<close>

definition posts :: "event list \<Rightarrow> nat" where
  "posts evs = count_list evs HttpPost"

definition queries :: "event list \<Rightarrow> nat" where
  "queries evs = count_list evs HttpGetTask"

definition extractions :: "event list \<Rightarrow> nat" where
  "extractions evs = count_list evs Extract"

fun is_sleep :: "event \<Rightarrow> bool" where
  "is_sleep (Sleep d) = True"
| "is_sleep e = False"

definition sleeps :: "event list \<Rightarrow> nat" where
  "sleeps evs = length (filter is_sleep evs)"

text \<open>
  A status endpoint "reports" a status: the answer has code 200 and a JSON object whose
  \<^verbatim>\<open>output\<close> is an object with that \<^verbatim>\<open>task_status\<close>.
\<close>

definition reports :: "string \<Rightarrow> body response \<Rightarrow> bool" where
  "reports status r =
     (case r of
        Response code (Json (JObj kvs)) \<Rightarrow>
          code = 200 \<and>
          (case map_of kvs ''output'' of
             Some (JObj okvs) \<Rightarrow> map_of okvs ''task_status'' = Some (JStr status)
           | _ \<Rightarrow> False)
      | _ \<Rightarrow> False)"

text \<open>The events of \<open>n\<close> queries answered \<^verbatim>\<open>RUNNING\<close>, each followed by the wait.\<close>

definition running_polls :: "nat \<Rightarrow> real \<Rightarrow> event list" where
  "running_polls n retry_interval = concat (replicate n [HttpGetTask, WriteDebug, Sleep retry_interval])"

section \<open>Concrete worlds and inputs\<close>

text \<open>
  Inputs for the closed theorems below. The decoder knows one base64 string, the image
  check accepts its bytes, and downloads of the example URL return the same bytes.
\<close>

definition decode_example :: "string \<Rightarrow> bytes option" where
  "decode_example s = (if s = ''UE5H'' then Some ''PNG'' else None)"

definition valid_example :: "bytes \<Rightarrow> bool" where
  "valid_example data = (data = ''PNG'')"

definition image_example :: "json \<Rightarrow> bytes response" where
  "image_example url =
     (if url = JStr ''https://example.com/a.png'' then Response 200 ''PNG'' else Raises OtherError)"

definition post_unauthorized :: "string \<Rightarrow> nat \<Rightarrow> body response" where
  "post_unauthorized prompt n = Response 401 (Json (JObj [(''code'', JStr ''InvalidApiKey'')]))"

definition post_timeout :: "string \<Rightarrow> nat \<Rightarrow> body response" where
  "post_timeout prompt n = Raises Timeout"

definition inline_body :: json where
  "inline_body = JObj [(''images'', JArr [JStr ''UE5H''])]"

definition post_rate_limited_twice :: "string \<Rightarrow> nat \<Rightarrow> body response" where
  "post_rate_limited_twice prompt n =
     (if n < 2 then Response 429 NotJson else Response 200 (Json inline_body))"

definition post_task :: "string \<Rightarrow> nat \<Rightarrow> body response" where
  "post_task prompt n =
     Response 200 (Json (JObj [(''output'',
       JObj [(''task_id'', JStr ''t1''), (''task_status'', JStr ''PENDING'')])]))"

definition running_body :: json where
  "running_body = JObj [(''output'', JObj [(''task_id'', JStr ''t1''), (''task_status'', JStr ''RUNNING'')])]"

definition succeeded_body :: json where
  "succeeded_body =
     JObj [(''output'', JObj [(''task_status'', JStr ''SUCCEEDED''),
       (''results'', JArr [JObj [(''url'', JStr ''https://example.com/a.png'')]])])]"

definition failed_body :: json where
  "failed_body =
     JObj [(''output'', JObj [(''task_status'', JStr ''FAILED''),
       (''message'', JStr ''content rejected'')])]"

definition task_running_twice :: "json \<Rightarrow> nat \<Rightarrow> body response" where
  "task_running_twice task_id n =
     (if n < 2 then Response 200 (Json running_body) else Response 200 (Json succeeded_body))"

definition task_failed :: "json \<Rightarrow> nat \<Rightarrow> body response" where
  "task_failed task_id n = Response 200 (Json failed_body)"

definition task_none :: "json \<Rightarrow> nat \<Rightarrow> body response" where
  "task_none task_id n = Raises OtherError"

definition world_unauthorized :: world where
  "world_unauthorized =
     \<lparr>b64decode = decode_example, image_valid = valid_example, post = post_unauthorized,
      get_image = image_example, get_task = task_none, now = 0\<rparr>"

definition world_timeout :: world where
  "world_timeout =
     \<lparr>b64decode = decode_example, image_valid = valid_example, post = post_timeout,
      get_image = image_example, get_task = task_none, now = 0\<rparr>"

definition world_rate_limited :: world where
  "world_rate_limited =
     \<lparr>b64decode = decode_example, image_valid = valid_example, post = post_rate_limited_twice,
      get_image = image_example, get_task = task_none, now = 0\<rparr>"

definition world_running_twice :: world where
  "world_running_twice =
     \<lparr>b64decode = decode_example, image_valid = valid_example, post = post_task,
      get_image = image_example, get_task = task_running_twice, now = 0\<rparr>"

definition world_failed :: world where
  "world_failed =
     \<lparr>b64decode = decode_example, image_valid = valid_example, post = post_task,
      get_image = image_example, get_task = task_failed, now = 0\<rparr>"

text \<open>
  Response bodies: the nested shape with a URL, and a body with both a truthy
  \<^verbatim>\<open>images\<close> that holds no string and a \<^verbatim>\<open>data\<close> list with a URL.
\<close>

definition nested_url_body :: json where
  "nested_url_body =
     JObj [(''output'', JObj [(''choices'', JArr [JObj [(''message'',
       JObj [(''content'', JArr [JObj [(''image'', JStr ''https://example.com/a.png'')]])])]])])]"

definition data_url_body :: json where
  "data_url_body = JObj [(''data'', JArr [JObj [(''url'', JStr ''https://example.com/a.png'')]])]"

definition two_rows :: "(int \<times> string) list" where
  "two_rows = [(1, ''a cat''), (2, ''a dog'')]"

definition empty_sheet :: "cell list list" where
  "empty_sheet = [[CellNaN], [CellStr ''  ''], [CellNone]]"

text \<open>
  For stating the order of the shapes: whether a key of a JSON object has a value that
  counts as true. The bodies after it: one in which a truthy \<^verbatim>\<open>images\<close> without a
  string comes together with \<^verbatim>\<open>output\<close> and with a \<^verbatim>\<open>data\<close> list that has a URL; one
  whose first \<^verbatim>\<open>data\<close> element has both \<^verbatim>\<open>url\<close> and \<^verbatim>\<open>b64_json\<close> and is followed by
  a second element; one with \<^verbatim>\<open>b64_json\<close> only; one with neither key; and two in which
  \<^verbatim>\<open>images\<close> is present but counts as false.
\<close>

definition truthy_at :: "(string \<times> json) list \<Rightarrow> string \<Rightarrow> bool" where
  "truthy_at kvs k = (case map_of kvs k of None \<Rightarrow> False | Some v \<Rightarrow> truthy v)"

definition mixed_body :: json where
  "mixed_body =
     JObj [(''images'', JArr [JNum 5]), (''output'', JObj []),
           (''data'', JArr [JObj [(''url'', JStr ''https://example.com/a.png'')]])]"


definition both_body :: json where
  "both_body =
     JObj [(''data'', JArr [JObj [(''url'', JStr ''https://example.com/a.png''), (''b64_json'', JStr ''UE5H'')],
                            JObj [(''url'', JStr ''https://example.com/b.png'')]])]"

definition b64_body :: json where
  "b64_body = JObj [(''data'', JArr [JObj [(''b64_json'', JStr ''UE5H'')]])]"

definition other_body :: json where
  "other_body = JObj [(''data'', JArr [JObj [(''revised_prompt'', JStr ''a cat'')]])]"

definition falsy_images_body :: json where
  "falsy_images_body =
     JObj [(''images'', JArr []), (''output'', JObj []),
           (''data'', JArr [JObj [(''url'', JStr ''https://example.com/a.png'')]])]"

definition null_images_body :: json where
  "null_images_body =
     JObj [(''images'', JNull), (''data'', JArr [JObj [(''url'', JStr ''https://example.com/a.png'')]])]"


section \<open>Properties of the Row Source\<close>

lemma upt_0_Suc: "[0..<Suc n] = 0 # map Suc [0..<n]"
  by (simp add: upt_conv_Cons map_Suc_upt del: upt_Suc)

lemma entries_Cons:
  "concat (map (\<lambda>k. entry ci st (idx + int k) ((row # rest) ! k)) [0..<length (row # rest)]) =
   entry ci st idx row @ concat (map (\<lambda>k. entry ci st ((idx + 1) + int k) (rest ! k)) [0..<length rest])"
proof -
  have "length (row # rest) = Suc (length rest)" by simp
  then show ?thesis
    by (simp only: upt_0_Suc list.map concat.simps map_map o_def nth_Cons_0 nth_Cons_Suc
        of_nat_0 of_nat_Suc add_0_right add.assoc add.commute[of "int _" 1])
qed

lemma read_rows_Inr:
  "read_rows ci st idx df acc = Inr texts \<Longrightarrow>
     texts = acc @ concat (map (\<lambda>k. entry ci st (idx + int k) (df ! k)) [0..<length df])
     \<and> (\<forall>row \<in> set df. ci < int (length row) \<longrightarrow> (\<exists>v. iloc row ci = Inr v))"
proof (induction df arbitrary: idx acc)
  case Nil
  then show ?case by simp
next
  case (Cons row rest)
  show ?case
  proof (cases "ci < int (length row)")
    case False
    with Cons.prems have "read_rows ci st (idx + 1) rest acc = Inr texts" by simp
    from Cons.IH[OF this] False show ?thesis
      unfolding entries_Cons by (simp add: entry_def)
  next
    case True
    with Cons.prems obtain v where v: "iloc row ci = Inr v"
      by (cases "iloc row ci") auto
    show ?thesis
    proof (cases "valid_text (strip (str_cell v))")
      case True
      with Cons.prems \<open>ci < int (length row)\<close> v
      have "read_rows ci st (idx + 1) rest (acc @ [(idx + st, strip (str_cell v))]) = Inr texts"
        by (simp add: Let_def)
      from Cons.IH[OF this] True v \<open>ci < int (length row)\<close> show ?thesis
        unfolding entries_Cons by (simp add: entry_def)
    next
      case False
      with Cons.prems \<open>ci < int (length row)\<close> v
      have "read_rows ci st (idx + 1) rest acc = Inr texts"
        by (simp add: Let_def)
      from Cons.IH[OF this] False v \<open>ci < int (length row)\<close> show ?thesis
        unfolding entries_Cons by (simp add: entry_def)
    qed
  qed
qed




lemma read_texts_entries:
  assumes "read_texts_from_excel df ci h = Inr texts"
  shows "texts = concat (map (\<lambda>k. entry ci (if h then 2 else 1) (int k) (df ! k)) [0..<length df])"
  using read_rows_Inr[of ci "if h then 2 else 1" 0 df "[]" texts] assms
  by (simp add: read_texts_from_excel_def Let_def)



lemma map_fst_entry: "map fst (entry ci st idx row) = (if kept ci row then [idx + st] else [])"
  by (auto simp: entry_def kept_def split: sum.splits)

lemma concat_map_if: "concat (map (\<lambda>k. if P k then [g k] else []) xs) = map g (filter P xs)"
  by (induction xs) auto


text \<open>
  Claim C8. The row at 0-based position \<open>idx\<close> gets the number \<open>idx + 2\<close> when a header
  row is present and \<open>idx + 1\<close> otherwise: the numbers in the result are the numbers of
  the positions of the rows that were kept, in the order of the rows, so they increase
  strictly, a skipped row leaves a gap and shifts nothing, and no number is below 2 with
  a header or below 1 without.
\<close>

theorem read_texts_row_numbering:
  assumes "read_texts_from_excel df ci h = Inr texts"
  shows "map fst texts = map (row_number h) (filter (\<lambda>idx. kept ci (df ! idx)) [0..<length df])
         \<and> sorted_wrt (<) (map fst texts)
         \<and> (\<forall>r \<in> set (map fst texts). (if h then 2 else 1) \<le> r)"
proof -
  have eq: "map fst texts = map (row_number h) (filter (\<lambda>idx. kept ci (df ! idx)) [0..<length df])"
    unfolding read_texts_entries[OF assms]
    by (simp add: map_concat o_def map_fst_entry row_number_def concat_map_if)
  have "sorted_wrt (<) (filter (\<lambda>idx. kept ci (df ! idx)) [0..<length df])"
    by (rule sorted_wrt_filter) (simp add: sorted_wrt_upt)
  then have s: "sorted_wrt (<) (map fst texts)"
    unfolding eq by (simp add: sorted_wrt_map row_number_def)
  have "\<forall>r \<in> set (map fst texts). (if h then 2 else 1) \<le> r"
    unfolding eq by (auto simp: row_number_def)
  with eq s show ?thesis by blast
qed

lemma sheet_eval:
  "read_texts_from_excel sheet_example 0 True = Inr [(2, ''a''), (6, ''42''), (9, ''cat'')]"
  by code_simp

theorem read_texts_row_numbering_witness:
  "read_texts_from_excel sheet_example 0 True = Inr [(2, ''a''), (6, ''42''), (9, ''cat'')] \<and>
   map fst [(2::int, ''a''), (6, ''42''), (9, ''cat'')] =
     map (row_number True) (filter (\<lambda>idx. kept 0 (sheet_example ! idx)) [0..<length sheet_example]) \<and>
   map (row_number True) (filter (\<lambda>idx. kept 0 (sheet_example ! idx)) [0..<length sheet_example]) = [2, 6, 9]"
proof -
  have "map (row_number True) (filter (\<lambda>idx. kept 0 (sheet_example ! idx)) [0..<length sheet_example]) = [2, 6, 9]"
    by code_simp
  with read_texts_row_numbering[OF sheet_eval] sheet_eval show ?thesis by simp
qed








section \<open>Properties of the retry loops\<close>

lemma posts_simps [simp]:
  "posts [] = 0" "posts (HttpPost # evs) = Suc (posts evs)"
  "posts (Sleep d # evs) = posts evs" "posts (WriteDebug # evs) = posts evs"
  "posts (HttpGetImage u # evs) = posts evs" "posts (SaveImage p # evs) = posts evs"
  "posts (xs @ ys) = posts xs + posts ys"
  by (simp_all add: posts_def)

lemma posts_backoff [simp]: "posts (backoff a rc) = 0"
  by (simp add: backoff_def)

lemma for_attempts_returns:
  assumes "\<And>a. \<exists>evs c. step a = (evs, Inr c)"
  shows "\<exists>r. snd (for_attempts step as) = Inr r"
proof (induction as)
  case Nil
  show ?case by simp
next
  case (Cons a as)
  from assms obtain evs c where s: "step a = (evs, Inr c)" by blast
  from Cons.IH obtain r where "snd (for_attempts step as) = Inr r" by blast
  with s show ?case
    by (cases c; cases "for_attempts step as") auto
qed

lemma attempt_qwen_caught:
  "\<exists>evs c. attempt_qwen w output_dir prompt row_num retry_count a = (evs, Inr c)"
proof -
  obtain evs r where t: "try_qwen w output_dir prompt row_num a = (evs, r)"
    by (cases "try_qwen w output_dir prompt row_num a")
  show ?thesis
  proof (cases r)
    case (Inl e)
    with t show ?thesis by (cases e) (simp_all add: attempt_qwen_def)
  next
    case (Inr c)
    with t show ?thesis by (cases c) (simp_all add: attempt_qwen_def)
  qed
qed

lemma attempt_seedream_caught:
  "\<exists>evs c. attempt_seedream w output_dir prompt row_num retry_count a = (evs, Inr c)"
proof -
  obtain evs r where t: "try_seedream w output_dir prompt row_num a = (evs, r)"
    by (cases "try_seedream w output_dir prompt row_num a")
  show ?thesis
  proof (cases r)
    case (Inl e)
    with t show ?thesis by (cases e) (simp_all add: attempt_seedream_def)
  next
    case (Inr c)
    with t show ?thesis by (cases c) (simp_all add: attempt_seedream_def)
  qed
qed

lemma generate_image_qwen_returns:
  "\<exists>r. snd (generate_image_qwen w output_dir prompt row_num retry_count) = Inr r"
  unfolding generate_image_qwen_def Let_def
  by (rule for_attempts_returns) (rule attempt_qwen_caught)

lemma generate_image_seedream_returns:
  "\<exists>r. snd (generate_image_seedream w output_dir prompt row_num retry_count) = Inr r"
  unfolding generate_image_seedream_def
  by (rule for_attempts_returns) (rule attempt_seedream_caught)

lemma generate_image_wan_returns:
  "\<exists>r. snd (generate_image_wan w output_dir prompt row_num) = Inr r"
  by (auto simp: generate_image_wan_def Let_def split: prod.splits option.splits ctl.splits)

lemma never_raises_qwen: "never_raises (gen_qwen w output_dir)"
  unfolding never_raises_def gen_qwen_def
  by (metis generate_image_qwen_returns prod.collapse)

lemma never_raises_seedream: "never_raises (gen_seedream w output_dir)"
  unfolding never_raises_def gen_seedream_def
  by (metis generate_image_seedream_returns prod.collapse)

lemma never_raises_wan: "never_raises (gen_wan w output_dir)"
  unfolding never_raises_def gen_wan_def
  by (metis generate_image_wan_returns prod.collapse)

lemma upt_3: "[0..<3] = [0, 1, 2]"
  by (simp add: upt_rec)

lemma attempt_timeout_qwen:
  "post w prompt a = Raises Timeout \<Longrightarrow>
   attempt_qwen w output_dir prompt row_num rc a = (HttpPost # backoff a rc, Inr FallThrough)"
  by (simp add: attempt_qwen_def try_qwen_def)

lemma attempt_timeout_seedream:
  "post w prompt a = Raises Timeout \<Longrightarrow>
   attempt_seedream w output_dir prompt row_num rc a = (HttpPost # backoff a rc, Inr FallThrough)"
  by (simp add: attempt_seedream_def try_seedream_def)

lemma backoff_3 [simp]:
  "backoff 0 3 = [Sleep 1]" "backoff (Suc 0) 3 = [Sleep 2]" "backoff 2 3 = []"
  by (simp_all add: backoff_def)

text \<open>
  Claim C5. In both synchronous scripts \<^verbatim>\<open>generate_image\<close> always returns a value, a
  path or \<^verbatim>\<open>None\<close>: whatever the attempts raise (a timeout, a body that is not JSON, any
  other exception) is caught in the attempt. When every post times out and
  \<^verbatim>\<open>retry_count\<close> is 3, exactly three posts are made, with waits of 1 and 2 seconds
  between them, and the result is \<^verbatim>\<open>None\<close>.
\<close>

theorem generate_image_never_raises:
  "(\<exists>r. snd (generate_image_qwen w output_dir prompt row_num retry_count) = Inr r)
   \<and> (\<exists>r. snd (generate_image_seedream w output_dir prompt row retry_count) = Inr r)
   \<and> ((\<forall>n. post w prompt n = Raises Timeout) \<longrightarrow>
        generate_image_qwen w output_dir prompt row_num 3
          = ([HttpPost, Sleep 1, HttpPost, Sleep 2, HttpPost], Inr None)
        \<and> generate_image_seedream w output_dir prompt row 3
          = ([HttpPost, Sleep 1, HttpPost, Sleep 2, HttpPost], Inr None))"
proof -
  have t: "generate_image_qwen w output_dir prompt row_num 3
             = ([HttpPost, Sleep 1, HttpPost, Sleep 2, HttpPost], Inr None)
           \<and> generate_image_seedream w output_dir prompt row 3
             = ([HttpPost, Sleep 1, HttpPost, Sleep 2, HttpPost], Inr None)"
    if "\<forall>n. post w prompt n = Raises Timeout"
    using that
    by (simp add: generate_image_qwen_def generate_image_seedream_def Let_def upt_3
        attempt_timeout_qwen attempt_timeout_seedream)
  from generate_image_qwen_returns generate_image_seedream_returns t show ?thesis by blast
qed


theorem generate_image_never_raises_witness:
  "post world_timeout ''a cat'' 0 = Raises Timeout
   \<and> generate_image_qwen world_timeout ''out'' ''a cat'' (Some 1) 3
       = ([HttpPost, Sleep 1, HttpPost, Sleep 2, HttpPost], Inr None)
   \<and> generate_image_seedream world_timeout ''out'' ''a cat'' 1 3
       = ([HttpPost, Sleep 1, HttpPost, Sleep 2, HttpPost], Inr None)
   \<and> posts [HttpPost, Sleep 1, HttpPost, Sleep 2, HttpPost] = 3"
proof -
  have h: "\<forall>n. post world_timeout ''a cat'' n = Raises Timeout"
    by (simp add: world_timeout_def post_timeout_def)
  from generate_image_never_raises[of world_timeout "''out''" "''a cat''" "Some 1" 3 1] h
  show ?thesis by simp
qed

lemma for_attempts_all_fall:
  assumes "\<And>a. a \<in> set as \<Longrightarrow> \<exists>evs. step a = (evs, Inr FallThrough) \<and> posts evs = 1"
  shows "posts (fst (for_attempts step as)) = length as \<and> snd (for_attempts step as) = Inr None"
  using assms
proof (induction as)
  case Nil
  show ?case by simp
next
  case (Cons a as)
  from Cons.prems[of a] obtain evs where s: "step a = (evs, Inr FallThrough)" and p: "posts evs = 1"
    by auto
  from Cons.IH Cons.prems
  have ih: "posts (fst (for_attempts step as)) = length as \<and> snd (for_attempts step as) = Inr None"
    by simp
  obtain evs' r where f: "for_attempts step as = (evs', r)" by (cases "for_attempts step as")
  with s p ih show ?case by simp
qed

lemma attempt_401_seedream:
  "post w prompt a = Response 401 b \<Longrightarrow>
   attempt_seedream w output_dir prompt row_num rc a = (HttpPost # backoff a rc, Inr FallThrough)"
  by (simp add: attempt_seedream_def try_seedream_def)

lemma attempt_401_qwen:
  "post w prompt a = Response 401 b \<Longrightarrow>
   attempt_qwen w output_dir prompt row_num rc a = ([HttpPost], Inr Break)"
  by (simp add: attempt_qwen_def try_qwen_def)

lemma upt_nat_pos: "0 < rc \<Longrightarrow> [0..<nat rc] = 0 # [1..<nat rc]"
  by (simp add: upt_conv_Cons)

text \<open>
  Claim C1, as amended. When every post is answered with status 401:
  \<^verbatim>\<open>qwen-image-plus.py\<close> breaks out of the loop after the first post, for every
  positive \<^verbatim>\<open>retry_count\<close>, and returns \<^verbatim>\<open>None\<close>; \<^verbatim>\<open>wan2.5-t2i-preview.py\<close>, which
  has no retry loop, posts once and returns \<^verbatim>\<open>None\<close>; \<^verbatim>\<open>seedream3.0&4.0.py\<close> has no
  branch for 401, treats it as any other status and posts \<^verbatim>\<open>retry_count\<close> times
  before it returns \<^verbatim>\<open>None\<close>.
\<close>

theorem unauthorized_attempts:
  assumes "\<forall>n. \<exists>b. post w prompt n = Response 401 b"
  shows "(0 < retry_count \<longrightarrow>
            generate_image_qwen w output_dir prompt row_num retry_count = ([HttpPost], Inr None))
       \<and> generate_image_wan w output_dir prompt row_num = ([HttpPost], Inr None)
       \<and> posts (fst (generate_image_seedream w output_dir prompt row retry_count)) = nat retry_count
       \<and> snd (generate_image_seedream w output_dir prompt row retry_count) = Inr None"
proof -
  from assms obtain b0 where b0: "post w prompt 0 = Response 401 b0" by blast
  have q: "generate_image_qwen w output_dir prompt row_num retry_count = ([HttpPost], Inr None)"
    if "0 < retry_count"
    using that b0 by (simp add: generate_image_qwen_def Let_def upt_nat_pos attempt_401_qwen)
  have wn: "generate_image_wan w output_dir prompt row_num = ([HttpPost], Inr None)"
    using b0 by (simp add: generate_image_wan_def create_async_task_def Let_def)
  have "\<exists>evs. attempt_seedream w output_dir prompt row retry_count a = (evs, Inr FallThrough)
           \<and> posts evs = 1" for a
  proof -
    from assms obtain b where "post w prompt a = Response 401 b" by blast
    then show ?thesis by (simp add: attempt_401_seedream)
  qed
  then have s: "posts (fst (generate_image_seedream w output_dir prompt row retry_count)) = nat retry_count
      \<and> snd (generate_image_seedream w output_dir prompt row retry_count) = Inr None"
    unfolding generate_image_seedream_def
    using for_attempts_all_fall[of "[0..<nat retry_count]"
            "attempt_seedream w output_dir prompt row retry_count"]
    by simp
  from q wn s show ?thesis by blast
qed

theorem unauthorized_attempts_witness:
  "post world_unauthorized ''a cat'' 0 = Response 401 (Json (JObj [(''code'', JStr ''InvalidApiKey'')]))
   \<and> generate_image_qwen world_unauthorized ''out'' ''a cat'' (Some 1) 3 = ([HttpPost], Inr None)
   \<and> generate_image_wan world_unauthorized ''out'' ''a cat'' (Some 1) = ([HttpPost], Inr None)
   \<and> posts (fst (generate_image_seedream world_unauthorized ''out'' ''a cat'' 1 3)) = 3
   \<and> snd (generate_image_seedream world_unauthorized ''out'' ''a cat'' 1 3) = Inr None"
proof -
  have h: "\<forall>n. \<exists>b. post world_unauthorized ''a cat'' n = Response 401 b"
    by (simp add: world_unauthorized_def post_unauthorized_def)
  have p: "post world_unauthorized ''a cat'' 0 = Response 401 (Json (JObj [(''code'', JStr ''InvalidApiKey'')]))"
    by (simp add: world_unauthorized_def post_unauthorized_def)
  from unauthorized_attempts[OF h, of 3 "''out''" "Some 1" 1] p
  show ?thesis by simp
qed

text \<open>
  Claim C1 as stated fails for \<^verbatim>\<open>seedream3.0&4.0.py\<close>: with every post answered 401
  and the default \<^verbatim>\<open>retry_count=3\<close> it posts three times, waiting 1 and 2 seconds.
\<close>

theorem unauthorized_seedream_counterexample:
  "post world_unauthorized ''a cat'' 0 = Response 401 (Json (JObj [(''code'', JStr ''InvalidApiKey'')]))
   \<and> post world_unauthorized ''a cat'' 1 = Response 401 (Json (JObj [(''code'', JStr ''InvalidApiKey'')]))
   \<and> post world_unauthorized ''a cat'' 2 = Response 401 (Json (JObj [(''code'', JStr ''InvalidApiKey'')]))
   \<and> generate_image_seedream world_unauthorized ''out'' ''a cat'' 1 3
       = ([HttpPost, Sleep 1, HttpPost, Sleep 2, HttpPost], Inr None)
   \<and> posts [HttpPost, Sleep 1, HttpPost, Sleep 2, HttpPost] = 3"
  by (simp add: world_unauthorized_def post_unauthorized_def generate_image_seedream_def
      upt_3 attempt_401_seedream)

lemma posts_save [simp]: "posts (fst (save_image w output_dir row_num d)) = 0"
  by (simp add: save_image_def split: option.splits)

lemma posts_download [simp]: "posts (fst (download_qwen w p)) = 0"
  by (simp add: download_qwen_def split: prod.splits option.splits response.splits)

lemma posts_parse_seedream [simp]: "posts (fst (parse_response_seedream w result)) = 0"
  by (simp add: parse_response_seedream_def split: option.splits source.splits response.splits)

lemma posts_save_eq: "save_image w output_dir row_num d = (evs, c) \<Longrightarrow> posts evs = 0"
  using posts_save[of w output_dir row_num d] by simp

lemma posts_download_eq: "download_qwen w p = (evs, d) \<Longrightarrow> posts evs = 0"
  using posts_download[of w p] by simp

lemma posts_parse_seedream_eq: "parse_response_seedream w result = (evs, r) \<Longrightarrow> posts evs = 0"
  using posts_parse_seedream[of w result] by simp

lemma posts_on_200_qwen: "posts (fst (on_200_qwen w output_dir row_num b)) = 0"
  by (auto simp: on_200_qwen_def split: body.splits option.splits prod.splits
      dest: posts_save_eq posts_download_eq)

lemma posts_on_200_seedream: "posts (fst (on_200_seedream w output_dir row_num b)) = 0"
  by (auto simp: on_200_seedream_def split: body.splits prod.splits sum.splits
      dest: posts_save_eq posts_parse_seedream_eq)

lemma posts_try_qwen: "posts (fst (try_qwen w output_dir prompt row_num a)) = 1"
proof (cases "post w prompt a")
  case (Raises e)
  then show ?thesis by (simp add: try_qwen_def)
next
  case (Response status b)
  obtain evs r where o: "on_200_qwen w output_dir row_num b = (evs, r)"
    by (cases "on_200_qwen w output_dir row_num b")
  with posts_on_200_qwen[of w output_dir row_num b] have "posts evs = 0" by simp
  with Response o show ?thesis by (simp add: try_qwen_def)
qed

lemma posts_try_seedream: "posts (fst (try_seedream w output_dir prompt row_num a)) = 1"
proof (cases "post w prompt a")
  case (Raises e)
  then show ?thesis by (simp add: try_seedream_def)
next
  case (Response status b)
  obtain evs r where o: "on_200_seedream w output_dir row_num b = (evs, r)"
    by (cases "on_200_seedream w output_dir row_num b")
  with posts_on_200_seedream[of w output_dir row_num b] have "posts evs = 0" by simp
  with Response o show ?thesis by (simp add: try_seedream_def)
qed

lemma attempt_429_qwen:
  "post w prompt a = Response 429 b \<Longrightarrow>
   attempt_qwen w output_dir prompt row_num rc a
     = ([HttpPost, Sleep (of_nat ((a + 1) * 10))], Inr Continue)"
  by (simp add: attempt_qwen_def try_qwen_def)

lemma attempt_429_seedream:
  "post w prompt a = Response 429 b \<Longrightarrow>
   attempt_seedream w output_dir prompt row_num rc a
     = ([HttpPost, Sleep (of_nat ((a + 1) * 10))], Inr Continue)"
  by (simp add: attempt_seedream_def try_seedream_def)

lemma attempt_return_qwen:
  "try_qwen w output_dir prompt row_num a = (evs, Inr (Return p)) \<Longrightarrow>
   attempt_qwen w output_dir prompt row_num rc a = (evs, Inr (Return p))"
  by (simp add: attempt_qwen_def)

lemma attempt_return_seedream:
  "try_seedream w output_dir prompt row_num a = (evs, Inr (Return p)) \<Longrightarrow>
   attempt_seedream w output_dir prompt row_num rc a = (evs, Inr (Return p))"
  by (simp add: attempt_seedream_def)

text \<open>
  Claim C6. In both synchronous scripts, when the first two posts are answered with
  status 429 and the third attempt returns a path (its response gave an image that could
  be decoded and saved), \<^verbatim>\<open>generate_image\<close> with \<^verbatim>\<open>retry_count=3\<close> returns that path
  after exactly three posts, having waited 10 seconds after the first and 20 seconds
  after the second, and not the 1 and 2 seconds of the wait before a retry.
\<close>

theorem rate_limited_twice_then_success:
  assumes "post w prompt 0 = Response 429 b0" and "post w prompt 1 = Response 429 b1"
  shows "(try_qwen w output_dir prompt row_num 2 = (evs, Inr (Return filepath)) \<longrightarrow>
            generate_image_qwen w output_dir prompt (Some row_num) 3
              = ([HttpPost, Sleep 10, HttpPost, Sleep 20] @ evs, Inr (Some filepath))
            \<and> posts ([HttpPost, Sleep 10, HttpPost, Sleep 20] @ evs) = 3)
       \<and> (try_seedream w output_dir prompt row_num 2 = (evs', Inr (Return filepath')) \<longrightarrow>
            generate_image_seedream w output_dir prompt row_num 3
              = ([HttpPost, Sleep 10, HttpPost, Sleep 20] @ evs', Inr (Some filepath'))
            \<and> posts ([HttpPost, Sleep 10, HttpPost, Sleep 20] @ evs') = 3)"
proof -
  have q: "generate_image_qwen w output_dir prompt (Some row_num) 3
              = ([HttpPost, Sleep 10, HttpPost, Sleep 20] @ evs, Inr (Some filepath))
           \<and> posts ([HttpPost, Sleep 10, HttpPost, Sleep 20] @ evs) = 3"
    if t: "try_qwen w output_dir prompt row_num 2 = (evs, Inr (Return filepath))"
  proof -
    from posts_try_qwen[of w output_dir prompt row_num 2] t have "posts evs = 1" by simp
    moreover have "generate_image_qwen w output_dir prompt (Some row_num) 3
              = ([HttpPost, Sleep 10, HttpPost, Sleep 20] @ evs, Inr (Some filepath))"
      using assms attempt_return_qwen[OF t]
      by (simp add: generate_image_qwen_def upt_3 attempt_429_qwen)
    ultimately show ?thesis by simp
  qed
  have s: "generate_image_seedream w output_dir prompt row_num 3
              = ([HttpPost, Sleep 10, HttpPost, Sleep 20] @ evs', Inr (Some filepath'))
           \<and> posts ([HttpPost, Sleep 10, HttpPost, Sleep 20] @ evs') = 3"
    if t: "try_seedream w output_dir prompt row_num 2 = (evs', Inr (Return filepath'))"
  proof -
    from posts_try_seedream[of w output_dir prompt row_num 2] t have "posts evs' = 1" by simp
    moreover have "generate_image_seedream w output_dir prompt row_num 3
              = ([HttpPost, Sleep 10, HttpPost, Sleep 20] @ evs', Inr (Some filepath'))"
      using assms attempt_return_seedream[OF t]
      by (simp add: generate_image_seedream_def upt_3 attempt_429_seedream)
    ultimately show ?thesis by simp
  qed
  from q s show ?thesis by blast
qed


lemma third_attempt_qwen:
  "try_qwen world_rate_limited ''out'' ''a cat'' 1 2
     = ([HttpPost, WriteDebug, SaveImage ''out/row_0001.png''], Inr (Return ''out/row_0001.png''))"
  by code_simp

lemma third_attempt_seedream:
  "try_seedream world_rate_limited ''out'' ''a cat'' 1 2
     = ([HttpPost, SaveImage ''out/row_0001.png''], Inr (Return ''out/row_0001.png''))"
  by code_simp

theorem rate_limited_twice_then_success_witness:
  "post world_rate_limited ''a cat'' 0 = Response 429 NotJson
   \<and> post world_rate_limited ''a cat'' 1 = Response 429 NotJson
   \<and> post world_rate_limited ''a cat'' 2 = Response 200 (Json inline_body)
   \<and> generate_image_qwen world_rate_limited ''out'' ''a cat'' (Some 1) 3
       = ([HttpPost, Sleep 10, HttpPost, Sleep 20, HttpPost, WriteDebug,
           SaveImage ''out/row_0001.png''], Inr (Some ''out/row_0001.png''))
   \<and> generate_image_seedream world_rate_limited ''out'' ''a cat'' 1 3
       = ([HttpPost, Sleep 10, HttpPost, Sleep 20, HttpPost,
           SaveImage ''out/row_0001.png''], Inr (Some ''out/row_0001.png''))"
proof -
  have p0: "post world_rate_limited ''a cat'' 0 = Response 429 NotJson"
    and p1: "post world_rate_limited ''a cat'' 1 = Response 429 NotJson"
    and p2: "post world_rate_limited ''a cat'' 2 = Response 200 (Json inline_body)"
    by (simp_all add: world_rate_limited_def post_rate_limited_twice_def)
  from rate_limited_twice_then_success[OF p0 p1, of "''out''" 1
         "[HttpPost, WriteDebug, SaveImage ''out/row_0001.png'']" "''out/row_0001.png''"
         "[HttpPost, SaveImage ''out/row_0001.png'']" "''out/row_0001.png''"]
       third_attempt_qwen third_attempt_seedream p0 p1 p2
  show ?thesis by simp
qed

section \<open>Properties of the Batch Driver\<close>

lemma batch_rows_events:
  assumes "never_raises gen"
  shows "fst (batch_rows gen delay n texts s f) =
           concat (map (if 0 < delay \<and> 1 < n then row_and_delay gen delay else row_alone gen) texts)
         \<and> (\<exists>ok bad. snd (batch_rows gen delay n texts s f) = Inr (ok, bad)
               \<and> length ok + length bad = length s + length f + length texts)"
proof (induction texts arbitrary: s f)
  case Nil
  show ?case by simp
next
  case (Cons p texts)
  obtain row_num prompt where p: "p = (row_num, prompt)" by (cases p)
  from assms obtain evs r where g: "gen prompt row_num = (evs, Inr r)"
    unfolding never_raises_def by blast
  let ?s = "if result_ok r then s @ [row_num] else s"
  let ?f = "if result_ok r then f else f @ [row_num]"
  obtain evs' r' where b: "batch_rows gen delay n texts ?s ?f = (evs', r')"
    by (cases "batch_rows gen delay n texts ?s ?f")
  from Cons.IH[of ?s ?f] b
  have e: "evs' = concat (map (if 0 < delay \<and> 1 < n then row_and_delay gen delay else row_alone gen) texts)"
    and "\<exists>ok bad. r' = Inr (ok, bad) \<and> length ok + length bad = length ?s + length ?f + length texts"
    by simp_all
  then obtain ok bad where r': "r' = Inr (ok, bad)"
    and l: "length ok + length bad = length ?s + length ?f + length texts" by blast
  have step: "batch_rows gen delay n (p # texts) s f =
        (Row row_num evs # (if 0 < delay \<and> 1 < n then [Sleep delay] else []) @ evs', r')"
    using p g b by simp
  show ?case
    unfolding step using e r' l g p
    by (auto simp: row_and_delay_def row_alone_def)
qed

lemma sleeps_append: "sleeps (xs @ ys) = sleeps xs + sleeps ys"
  by (simp add: sleeps_def)

lemma sleeps_delayed: "sleeps (concat (map (row_and_delay gen delay) texts)) = length texts"
  by (induction texts) (simp_all add: sleeps_def row_and_delay_def)

lemma sleeps_alone: "sleeps (concat (map (row_alone gen) texts)) = 0"
  by (induction texts) (simp_all add: sleeps_def row_alone_def)

lemma batch_two_rows:
  "batch_generate (gen_qwen world_unauthorized ''out'') two_rows 2
     = ([Row 1 [HttpPost], Sleep 2, Row 2 [HttpPost], Sleep 2], Inr ([], [1, 2]))"
  by code_simp

text \<open>
  Claim C2, as amended. For every non-empty list of rows and every delay above 0 (and a
  generator that returns), \<^verbatim>\<open>batch_generate\<close> waits the delay after every row, the
  last one too, when there are two rows or more, and not at all when there is one row:
  a batch of \<open>n\<close> rows makes \<open>n\<close> waits between rows for \<open>n \<ge> 2\<close> and none for
  \<open>n = 1\<close>.
\<close>

theorem batch_delay_count:
  assumes "never_raises gen" and "texts \<noteq> []" and "0 < delay"
  shows "sleeps (fst (batch_generate gen texts delay)) = (if length texts = 1 then 0 else length texts)"
proof -
  from assms(2) have "length texts = 1 \<or> 1 < length texts"
    by (cases texts) auto
  then show ?thesis
    using batch_rows_events[OF assms(1), of delay "length texts" texts "[]" "[]"] assms(3)
    by (auto simp: batch_generate_def sleeps_delayed sleeps_alone)
qed

theorem batch_delay_count_witness:
  "never_raises (gen_qwen world_unauthorized ''out'') \<and> two_rows \<noteq> [] \<and> (0::real) < 2
   \<and> length two_rows = 2
   \<and> sleeps (fst (batch_generate (gen_qwen world_unauthorized ''out'') two_rows 2)) = 2"
proof -
  have l: "length two_rows = 2" and n: "two_rows \<noteq> []" by (simp_all add: two_rows_def)
  from batch_delay_count[OF never_raises_qwen[of world_unauthorized "''out''"] n,
         where delay = 2] l n
    never_raises_qwen[of world_unauthorized "''out''"]
  show ?thesis by simp
qed

text \<open>
  Claim C2 as stated fails: a batch of two rows with a delay of 2 seconds waits twice,
  not once; the second wait comes after the last row.
\<close>

theorem batch_delay_count_counterexample:
  "fst (batch_generate (gen_qwen world_unauthorized ''out'') two_rows 2)
     = [Row 1 [HttpPost], Sleep 2, Row 2 [HttpPost], Sleep 2]
   \<and> sleeps [Row 1 [HttpPost], Sleep 2, Row 2 [HttpPost], Sleep 2] = 2
   \<and> length two_rows - 1 = 1"
  using batch_two_rows by (simp add: sleeps_def two_rows_def)

text \<open>
  Claim C10. A batch of exactly one row makes no wait between rows, whatever the delay;
  a batch of two rows or more with a delay above 0 is, row by row, the call of
  \<^verbatim>\<open>generate_image\<close> followed by the wait, so the wait also follows the last row (for a
  generator that returns).
\<close>

theorem batch_delay_after_every_row:
  assumes "never_raises gen"
  shows "(length texts = 1 \<longrightarrow> sleeps (fst (batch_generate gen texts delay)) = 0)
       \<and> (2 \<le> length texts \<and> 0 < delay \<longrightarrow>
            fst (batch_generate gen texts delay) = concat (map (row_and_delay gen delay) texts)
            \<and> last (fst (batch_generate gen texts delay)) = Sleep delay)"
proof -
  note ev = batch_rows_events[OF assms, of delay "length texts" texts "[]" "[]", THEN conjunct1]
  have one: "sleeps (fst (batch_generate gen texts delay)) = 0" if "length texts = 1"
    using ev that by (simp add: batch_generate_def sleeps_alone)
  have two: "fst (batch_generate gen texts delay) = concat (map (row_and_delay gen delay) texts)
      \<and> last (fst (batch_generate gen texts delay)) = Sleep delay"
    if "2 \<le> length texts" and "0 < delay"
  proof -
    from that have eq: "fst (batch_generate gen texts delay) = concat (map (row_and_delay gen delay) texts)"
      using ev by (simp add: batch_generate_def)
    from that(1) have "texts \<noteq> []" by auto
    then obtain ts t where "texts = ts @ [t]" by (metis rev_exhaust)
    then have "last (concat (map (row_and_delay gen delay) texts)) = Sleep delay"
      by (simp add: row_and_delay_def)
    with eq show ?thesis by simp
  qed
  from one two show ?thesis by blast
qed

theorem batch_delay_after_every_row_witness:
  "never_raises (gen_qwen world_unauthorized ''out'')
   \<and> sleeps (fst (batch_generate (gen_qwen world_unauthorized ''out'') [(7, ''a cat'')] 2)) = 0
   \<and> fst (batch_generate (gen_qwen world_unauthorized ''out'') two_rows 2)
       = concat (map (row_and_delay (gen_qwen world_unauthorized ''out'') 2) two_rows)
   \<and> concat (map (row_and_delay (gen_qwen world_unauthorized ''out'') 2) two_rows)
       = [Row 1 [HttpPost], Sleep 2, Row 2 [HttpPost], Sleep 2]
   \<and> last (fst (batch_generate (gen_qwen world_unauthorized ''out'') two_rows 2)) = Sleep 2"
proof -
  have l: "length two_rows = 2" by (simp add: two_rows_def)
  have c: "concat (map (row_and_delay (gen_qwen world_unauthorized ''out'') 2) two_rows)
       = [Row 1 [HttpPost], Sleep 2, Row 2 [HttpPost], Sleep 2]"
    by code_simp
  from batch_delay_after_every_row[OF never_raises_qwen[of world_unauthorized "''out''"],
         where texts = "[(7, ''a cat'')]" and delay = 2]
  have one: "sleeps (fst (batch_generate (gen_qwen world_unauthorized ''out'') [(7, ''a cat'')] 2)) = 0"
    by simp
  have pre: "2 \<le> length two_rows \<and> (0::real) < 2" using l by simp
  have two: "fst (batch_generate (gen_qwen world_unauthorized ''out'') two_rows 2)
       = concat (map (row_and_delay (gen_qwen world_unauthorized ''out'') 2) two_rows)
     \<and> last (fst (batch_generate (gen_qwen world_unauthorized ''out'') two_rows 2)) = Sleep 2"
    by (rule batch_delay_after_every_row[OF never_raises_qwen[of world_unauthorized "''out''"],
          where texts = two_rows and delay = 2, THEN conjunct2, rule_format, OF pre])
  from one two c never_raises_qwen[of world_unauthorized "''out''"] show ?thesis by blast
qed

text \<open>
  Claim C9. When the Row Source yields the empty list, \<^verbatim>\<open>generate_from_excel\<close> returns
  \<^verbatim>\<open>None\<close> and the run does nothing: no call of \<^verbatim>\<open>generate_image\<close>, no request, no
  wait, no file written, no report. When it yields rows (and the generator returns),
  the run is not empty, ends with the report being written and returns the counts.
  This holds for every generator, so for those of the three scripts.
\<close>

theorem no_texts_no_run:
  assumes "read_texts_from_excel df column_index has_header = Inr texts"
  shows "(texts = [] \<longrightarrow> generate_from_excel gen df column_index has_header delay = ([], Inr None))
       \<and> (texts \<noteq> [] \<and> never_raises gen \<longrightarrow>
            (\<exists>evs rep. generate_from_excel gen df column_index has_header delay
                          = (evs @ [WriteReport], Inr (Some rep))
                        \<and> evs \<noteq> [] \<and> total rep = length texts \<and> success rep + failed rep = length texts))"
proof -
  have a: "generate_from_excel gen df column_index has_header delay = ([], Inr None)" if "texts = []"
    using assms that by (simp add: generate_from_excel_def)
  have b: "\<exists>evs rep. generate_from_excel gen df column_index has_header delay
                          = (evs @ [WriteReport], Inr (Some rep))
                        \<and> evs \<noteq> [] \<and> total rep = length texts \<and> success rep + failed rep = length texts"
    if ne: "texts \<noteq> []" and nr: "never_raises gen"
  proof -
    from batch_rows_events[OF nr, of delay "length texts" texts "[]" "[]"]
    obtain ok bad where ev: "fst (batch_generate gen texts delay) =
           concat (map (if 0 < delay \<and> 1 < length texts then row_and_delay gen delay else row_alone gen) texts)"
      and r: "snd (batch_generate gen texts delay) = Inr (ok, bad)"
      and l: "length ok + length bad = length texts"
      by (auto simp: batch_generate_def)
    from ne obtain t ts where "texts = t # ts" by (cases texts) auto
    with ev have nonempty: "fst (batch_generate gen texts delay) \<noteq> []"
      by (auto simp: row_and_delay_def row_alone_def)
    obtain evs where bg: "batch_generate gen texts delay = (evs, Inr (ok, bad))"
      using r by (cases "batch_generate gen texts delay") auto
    with nonempty have "evs \<noteq> []" by simp
    with assms ne bg l show ?thesis
      by (simp add: generate_from_excel_def)
  qed
  from a b show ?thesis by blast
qed


lemma empty_sheet_eval: "read_texts_from_excel empty_sheet 0 False = Inr []"
  by code_simp

theorem no_texts_no_run_witness:
  "read_texts_from_excel empty_sheet 0 False = Inr []
   \<and> generate_from_excel (gen_qwen world_rate_limited ''out'') empty_sheet 0 False 2 = ([], Inr None)
   \<and> generate_from_excel (gen_seedream world_rate_limited ''out'') empty_sheet 0 False 2 = ([], Inr None)
   \<and> generate_from_excel (gen_wan world_running_twice ''out'') empty_sheet 0 False 5 = ([], Inr None)"
proof -
  from no_texts_no_run[OF empty_sheet_eval, of "gen_qwen world_rate_limited ''out''" 2]
  have q: "generate_from_excel (gen_qwen world_rate_limited ''out'') empty_sheet 0 False 2 = ([], Inr None)"
    by simp
  from no_texts_no_run[OF empty_sheet_eval, of "gen_seedream world_rate_limited ''out''" 2]
  have s: "generate_from_excel (gen_seedream world_rate_limited ''out'') empty_sheet 0 False 2 = ([], Inr None)"
    by simp
  from no_texts_no_run[OF empty_sheet_eval, of "gen_wan world_running_twice ''out''" 5]
  have w: "generate_from_excel (gen_wan world_running_twice ''out'') empty_sheet 0 False 5 = ([], Inr None)"
    by simp
  from q s w empty_sheet_eval show ?thesis by simp
qed

section \<open>Properties of the asynchronous adapter\<close>

lemma queries_simps [simp]:
  "queries [] = 0" "queries (HttpGetTask # evs) = Suc (queries evs)"
  "queries (HttpPost # evs) = queries evs" "queries (Sleep d # evs) = queries evs"
  "queries (WriteDebug # evs) = queries evs" "queries (HttpGetImage u # evs) = queries evs"
  "queries (SaveImage p # evs) = queries evs" "queries (Extract # evs) = queries evs"
  "queries (PrintReason m # evs) = queries evs"
  "queries (xs @ ys) = queries xs + queries ys"
  by (simp_all add: queries_def)

lemma extractions_simps [simp]:
  "extractions [] = 0" "extractions (Extract # evs) = Suc (extractions evs)"
  "extractions (HttpPost # evs) = extractions evs" "extractions (Sleep d # evs) = extractions evs"
  "extractions (WriteDebug # evs) = extractions evs" "extractions (HttpGetImage u # evs) = extractions evs"
  "extractions (SaveImage p # evs) = extractions evs" "extractions (HttpGetTask # evs) = extractions evs"
  "extractions (PrintReason m # evs) = extractions evs"
  "extractions (xs @ ys) = extractions xs + extractions ys"
  by (simp_all add: extractions_def)

lemma running_polls_Suc:
  "running_polls (Suc n) ri = [HttpGetTask, WriteDebug, Sleep ri] @ running_polls n ri"
  by (simp add: running_polls_def)

lemma running_polls_0 [simp]: "running_polls 0 ri = []"
  by (simp add: running_polls_def)

lemma queries_running [simp]: "queries (running_polls n ri) = n"
  by (induction n) (simp_all add: running_polls_Suc)

lemma extractions_running [simp]: "extractions (running_polls n ri) = 0"
  by (induction n) (simp_all add: running_polls_Suc)

lemma reports_status:
  assumes "reports st r"
  shows "\<exists>result. r = Response 200 (Json result) \<and> task_status_of result = Some (Some (JStr st))
           \<and> truthy result"
proof -
  from assms obtain code kvs where r: "r = Response code (Json (JObj kvs))"
    by (auto simp: reports_def split: response.splits body.splits json.splits)
  with assms have c: "code = 200" by (simp add: reports_def)
  from assms r obtain okvs where o: "map_of kvs ''output'' = Some (JObj okvs)"
    and s: "map_of okvs ''task_status'' = Some (JStr st)"
    by (auto simp: reports_def split: option.splits json.splits)
  from o have "kvs \<noteq> []" by auto
  with r c o s show ?thesis
    by (simp add: task_status_of_def)
qed

lemma poll_running:
  assumes "reports ''RUNNING'' (get_task w task_id a)"
  shows "poll_task w task_id ri a = ([HttpGetTask, WriteDebug, Sleep ri], FallThrough)"
proof -
  from reports_status[OF assms] obtain result
    where "get_task w task_id a = Response 200 (Json result)"
      and "task_status_of result = Some (Some (JStr ''RUNNING''))" by blast
  then show ?thesis by (simp add: poll_task_def)
qed

lemma poll_succeeded:
  assumes "get_task w task_id a = Response 200 (Json result)"
    and "reports ''SUCCEEDED'' (get_task w task_id a)"
  shows "poll_task w task_id ri a = ([HttpGetTask, WriteDebug], Return (Some result))"
proof -
  from reports_status[OF assms(2)] assms(1)
  have "task_status_of result = Some (Some (JStr ''SUCCEEDED''))" by simp
  with assms(1) show ?thesis by (simp add: poll_task_def)
qed

lemma poll_failed:
  assumes "get_task w task_id a = Response 200 (Json result)"
    and "reports ''FAILED'' (get_task w task_id a)"
  shows "poll_task w task_id ri a = ([HttpGetTask, WriteDebug] @ failure_message result, Return None)"
proof -
  from reports_status[OF assms(2)] assms(1)
  have "task_status_of result = Some (Some (JStr ''FAILED''))" by simp
  with assms(1) show ?thesis by (simp add: poll_task_def)
qed

lemma poll_attempts_running:
  "(\<forall>i<N. reports ''RUNNING'' (get_task w task_id (a + i))) \<Longrightarrow>
   poll_attempts w task_id ri ([a..<a + N] @ rest)
     = (running_polls N ri @ fst (poll_attempts w task_id ri rest),
        snd (poll_attempts w task_id ri rest))"
proof (induction N arbitrary: a)
  case 0
  show ?case by simp
next
  case (Suc N)
  from Suc.prems[rule_format, of 0] have r: "reports ''RUNNING'' (get_task w task_id a)" by simp
  have "\<forall>i<N. reports ''RUNNING'' (get_task w task_id (Suc a + i))"
    using Suc.prems by (auto dest: spec[of _ "Suc _"])
  from Suc.IH[OF this]
  have ih: "poll_attempts w task_id ri ([Suc a..<Suc a + N] @ rest)
     = (running_polls N ri @ fst (poll_attempts w task_id ri rest),
        snd (poll_attempts w task_id ri rest))" .
  have l: "[a..<a + Suc N] = a # [Suc a..<Suc a + N]"
    by (simp add: upt_conv_Cons)
  show ?case
    unfolding l using ih by (simp add: poll_running[OF r] running_polls_Suc del: upt_Suc)
qed

lemma upt_split:
  assumes "N < m"
  shows "[0..<m] = [0..<0 + N] @ (N # [Suc N..<m])"
proof -
  from assms have "[0..<m] = [0..<N] @ [N..<m]"
    using upt_add_eq_append[of 0 N "m - N"] by simp
  moreover from assms have "[N..<m] = N # [Suc N..<m]"
    by (simp add: upt_conv_Cons)
  ultimately show ?thesis by simp
qed

lemma get_task_result_succeeds:
  assumes "int N < max_retries"
    and "\<forall>i<N. reports ''RUNNING'' (get_task w task_id i)"
    and "get_task w task_id N = Response 200 (Json result)"
    and "reports ''SUCCEEDED'' (get_task w task_id N)"
  shows "get_task_result w task_id max_retries ri
           = (running_polls N ri @ [HttpGetTask, WriteDebug], Some result)"
proof -
  from assms(1) have "N < nat max_retries" by simp
  from upt_split[OF this]
  have l: "[0..<nat max_retries] = [0..<0 + N] @ (N # [Suc N..<nat max_retries])" .
  from assms(2) have "\<forall>i<N. reports ''RUNNING'' (get_task w task_id (0 + i))" by simp
  from poll_attempts_running[OF this, of ri "N # [Suc N..<nat max_retries]"]
  show ?thesis
    unfolding get_task_result_def l
    by (simp add: poll_succeeded[OF assms(3,4)] del: upt_Suc)
qed

lemma get_task_result_fails:
  assumes "0 < max_retries"
    and "get_task w task_id 0 = Response 200 (Json result)"
    and "reports ''FAILED'' (get_task w task_id 0)"
  shows "get_task_result w task_id max_retries ri
           = ([HttpGetTask, WriteDebug] @ failure_message result, None)"
proof -
  from assms(1) have "[0..<nat max_retries] = 0 # [1..<nat max_retries]"
    by (simp add: upt_conv_Cons)
  then show ?thesis
    unfolding get_task_result_def
    by (simp add: poll_failed[OF assms(2,3)] del: upt_Suc)
qed

lemma failure_message_counts [simp]:
  "queries (failure_message result) = 0" "extractions (failure_message result) = 0"
  by (simp_all add: failure_message_def split: option.splits)

lemma download_wan_counts:
  "download_wan w p = (evs, d) \<Longrightarrow> queries evs = 0 \<and> extractions evs = 0"
  by (auto simp: download_wan_def split: prod.splits if_splits response.splits)

lemma extract_shape:
  "\<exists>evs d. extract_image_from_result w result = (Extract # evs, d)
           \<and> queries evs = 0 \<and> extractions evs = 0"
proof (cases "parse_result_wan w result")
  case None
  then show ?thesis by (simp add: extract_image_from_result_def)
next
  case (Some p)
  obtain evs d where dl: "download_wan w p = (evs, d)" by (cases "download_wan w p")
  with Some download_wan_counts[OF dl] show ?thesis
    by (simp add: extract_image_from_result_def)
qed

lemma save_image_counts:
  "save_image w output_dir row_num d = (evs, c) \<Longrightarrow> queries evs = 0 \<and> extractions evs = 0"
  by (auto simp: save_image_def split: option.splits if_splits)



lemma wan_after_failure:
  assumes "create_async_task w prompt = ([HttpPost], Some task_id)" and "truthy task_id"
    and "get_task_result w task_id 30 30 = (polls, None)"
  shows "generate_image_wan w output_dir prompt row_num = (HttpPost # polls, Inr None)"
  using assms by (simp add: generate_image_wan_def Let_def)

lemma wan_after_polling:
  assumes "create_async_task w prompt = ([HttpPost], Some task_id)" and "truthy task_id"
    and p: "get_task_result w task_id 30 30 = (polls, Some result)" and t: "truthy result"
  shows "\<exists>rest r. generate_image_wan w output_dir prompt row_num = (HttpPost # polls @ Extract # rest, r)
           \<and> queries rest = 0 \<and> extractions rest = 0"
proof -
  let ?row = "case row_num of None \<Rightarrow> now w | Some n \<Rightarrow> n"
  from extract_shape[of w result] obtain evs d
    where e: "extract_image_from_result w result = (Extract # evs, d)"
      and e0: "queries evs = 0" "extractions evs = 0" by blast
  obtain evs' c where sv: "save_image w output_dir ?row d = (evs', c)"
    by (cases "save_image w output_dir ?row d")
  from save_image_counts[OF sv] have s0: "queries evs' = 0" "extractions evs' = 0" by simp_all
  have g: "generate_image_wan w output_dir prompt row_num
            = (HttpPost # polls @ Extract # (evs @ evs'),
               case c of Return filepath \<Rightarrow> Inr (Some filepath) | _ \<Rightarrow> Inr None)"
    using assms e sv by (cases c) (simp_all add: generate_image_wan_def Let_def)
  from e0 s0 have "queries (evs @ evs') = 0 \<and> extractions (evs @ evs') = 0" by simp
  with g show ?thesis by blast
qed

lemma succeeded_truthy:
  "get_task w task_id N = Response 200 (Json result) \<Longrightarrow>
   reports ''SUCCEEDED'' (get_task w task_id N) \<Longrightarrow> truthy result"
  using reports_status[of "''SUCCEEDED''" "get_task w task_id N"] by auto

text \<open>
  Claim C3, as amended. For a task that was created with a task id: when the status
  endpoint reports \<^verbatim>\<open>RUNNING\<close> for the first \<open>N\<close> queries and \<^verbatim>\<open>SUCCEEDED\<close> for the
  next one, with \<open>N\<close> below \<^verbatim>\<open>max_retries\<close>, \<^verbatim>\<open>get_task_result\<close> makes exactly
  \<open>N + 1\<close> queries, waits after each of the first \<open>N\<close>, and returns the last answer;
  \<^verbatim>\<open>generate_image\<close> (which polls at most 30 times) then calls
  \<^verbatim>\<open>extract_image_from_result\<close> once, after the last query. When the first query
  reports \<^verbatim>\<open>FAILED\<close>, exactly one query is made, the message of the answer is printed
  when there is one, nothing is extracted and \<^verbatim>\<open>generate_image\<close> returns \<^verbatim>\<open>None\<close> at
  once, without a wait.
\<close>

theorem polling_then_extraction:
  assumes "create_async_task w prompt = ([HttpPost], Some task_id)" and "truthy task_id"
  shows
   "(int N < max_retries \<and> (\<forall>i<N. reports ''RUNNING'' (get_task w task_id i))
       \<and> get_task w task_id N = Response 200 (Json result)
       \<and> reports ''SUCCEEDED'' (get_task w task_id N)
     \<longrightarrow> get_task_result w task_id max_retries retry_interval
           = (running_polls N retry_interval @ [HttpGetTask, WriteDebug], Some result)
         \<and> queries (running_polls N retry_interval @ [HttpGetTask, WriteDebug]) = N + 1)
    \<and> (N < 30 \<and> (\<forall>i<N. reports ''RUNNING'' (get_task w task_id i))
       \<and> get_task w task_id N = Response 200 (Json result)
       \<and> reports ''SUCCEEDED'' (get_task w task_id N)
     \<longrightarrow> (\<exists>rest r. generate_image_wan w output_dir prompt row_num
                      = (HttpPost # (running_polls N 30 @ [HttpGetTask, WriteDebug]) @ Extract # rest, r)
                    \<and> queries rest = 0 \<and> extractions rest = 0))
    \<and> (get_task w task_id 0 = Response 200 (Json failure)
       \<and> reports ''FAILED'' (get_task w task_id 0)
     \<longrightarrow> generate_image_wan w output_dir prompt row_num
           = (HttpPost # [HttpGetTask, WriteDebug] @ failure_message failure, Inr None)
         \<and> queries ([HttpGetTask, WriteDebug] @ failure_message failure) = 1
         \<and> extractions ([HttpGetTask, WriteDebug] @ failure_message failure) = 0)"
proof (intro conjI impI; elim conjE)
  assume h: "int N < max_retries" "\<forall>i<N. reports ''RUNNING'' (get_task w task_id i)"
       "get_task w task_id N = Response 200 (Json result)"
       "reports ''SUCCEEDED'' (get_task w task_id N)"
  show "get_task_result w task_id max_retries retry_interval
           = (running_polls N retry_interval @ [HttpGetTask, WriteDebug], Some result)"
    by (rule get_task_result_succeeds[OF h])
next
  show "queries (running_polls N retry_interval @ [HttpGetTask, WriteDebug]) = N + 1"
    by simp
next
  assume n: "N < 30" and h: "\<forall>i<N. reports ''RUNNING'' (get_task w task_id i)"
       "get_task w task_id N = Response 200 (Json result)"
       "reports ''SUCCEEDED'' (get_task w task_id N)"
  from n have "int N < 30" by simp
  from get_task_result_succeeds[OF this h]
  have p: "get_task_result w task_id 30 30
           = (running_polls N 30 @ [HttpGetTask, WriteDebug], Some result)" .
  from h have t: "truthy result" by (intro succeeded_truthy[of w task_id N])
  show "\<exists>rest r. generate_image_wan w output_dir prompt row_num
                      = (HttpPost # (running_polls N 30 @ [HttpGetTask, WriteDebug]) @ Extract # rest, r)
                    \<and> queries rest = 0 \<and> extractions rest = 0"
    by (rule wan_after_polling[OF assms p t])
next
  assume h: "get_task w task_id 0 = Response 200 (Json failure)"
       "reports ''FAILED'' (get_task w task_id 0)"
  have "(0::int) < 30" by simp
  from get_task_result_fails[OF this h]
  have p: "get_task_result w task_id 30 30 = ([HttpGetTask, WriteDebug] @ failure_message failure, None)" .
  show "generate_image_wan w output_dir prompt row_num
           = (HttpPost # [HttpGetTask, WriteDebug] @ failure_message failure, Inr None)"
    by (rule wan_after_failure[OF assms p])
next
  show "queries ([HttpGetTask, WriteDebug] @ failure_message failure) = 1" by simp
next
  show "extractions ([HttpGetTask, WriteDebug] @ failure_message failure) = 0" by simp
qed


lemma running_twice_polls:
  "\<forall>i<2. reports ''RUNNING'' (get_task world_running_twice (JStr ''t1'') i)"
  by (simp add: world_running_twice_def task_running_twice_def running_body_def reports_def)

lemma running_twice_third:
  "get_task world_running_twice (JStr ''t1'') 2 = Response 200 (Json succeeded_body)"
  "reports ''SUCCEEDED'' (get_task world_running_twice (JStr ''t1'') 2)"
  by (simp_all add: world_running_twice_def task_running_twice_def succeeded_body_def reports_def)

lemma running_twice_task:
  "create_async_task world_running_twice ''a cat'' = ([HttpPost], Some (JStr ''t1''))"
  by code_simp

lemma failed_task:
  "create_async_task world_failed ''a cat'' = ([HttpPost], Some (JStr ''t1''))"
  by code_simp

lemma failed_first:
  "get_task world_failed (JStr ''t1'') 0 = Response 200 (Json failed_body)"
  "reports ''FAILED'' (get_task world_failed (JStr ''t1'') 0)"
  by (simp_all add: world_failed_def task_failed_def failed_body_def reports_def)

lemma failed_message: "failure_message failed_body = [PrintReason (JStr ''content rejected'')]"
  by code_simp

theorem polling_then_extraction_witness:
  "create_async_task world_running_twice ''a cat'' = ([HttpPost], Some (JStr ''t1''))
   \<and> truthy (JStr ''t1'')
   \<and> reports ''RUNNING'' (get_task world_running_twice (JStr ''t1'') 0)
   \<and> reports ''RUNNING'' (get_task world_running_twice (JStr ''t1'') 1)
   \<and> reports ''SUCCEEDED'' (get_task world_running_twice (JStr ''t1'') 2)
   \<and> get_task_result world_running_twice (JStr ''t1'') 30 30
       = (running_polls 2 30 @ [HttpGetTask, WriteDebug], Some succeeded_body)
   \<and> queries (running_polls 2 30 @ [HttpGetTask, WriteDebug]) = 3
   \<and> (\<exists>rest r. generate_image_wan world_running_twice ''out'' ''a cat'' (Some 1)
                  = (HttpPost # (running_polls 2 30 @ [HttpGetTask, WriteDebug]) @ Extract # rest, r)
                \<and> queries rest = 0 \<and> extractions rest = 0)
   \<and> create_async_task world_failed ''a cat'' = ([HttpPost], Some (JStr ''t1''))
   \<and> reports ''FAILED'' (get_task world_failed (JStr ''t1'') 0)
   \<and> generate_image_wan world_failed ''out'' ''a cat'' (Some 1)
       = ([HttpPost, HttpGetTask, WriteDebug, PrintReason (JStr ''content rejected'')], Inr None)"
proof -
  have t: "truthy (JStr ''t1'')" by simp
  have r0: "reports ''RUNNING'' (get_task world_running_twice (JStr ''t1'') 0)"
    and r1: "reports ''RUNNING'' (get_task world_running_twice (JStr ''t1'') 1)"
    using running_twice_polls by simp_all
  have n: "int 2 < 30 \<and> (2::nat) < 30" by simp
  note run = polling_then_extraction[OF running_twice_task t, where N = 2 and max_retries = 30
      and retry_interval = 30 and result = succeeded_body and output_dir = "''out''"
      and row_num = "Some 1"]
  from run[THEN conjunct1] n running_twice_polls running_twice_third
  have a: "get_task_result world_running_twice (JStr ''t1'') 30 30
       = (running_polls 2 30 @ [HttpGetTask, WriteDebug], Some succeeded_body)
     \<and> queries (running_polls 2 30 @ [HttpGetTask, WriteDebug]) = 2 + 1"
    by blast
  from run[THEN conjunct2, THEN conjunct1] n running_twice_polls running_twice_third
  have b: "\<exists>rest r. generate_image_wan world_running_twice ''out'' ''a cat'' (Some 1)
                  = (HttpPost # (running_polls 2 30 @ [HttpGetTask, WriteDebug]) @ Extract # rest, r)
                \<and> queries rest = 0 \<and> extractions rest = 0"
    by blast
  from polling_then_extraction[OF failed_task t, where failure = failed_body
      and output_dir = "''out''" and row_num = "Some 1", THEN conjunct2, THEN conjunct2] failed_first
  have c: "generate_image_wan world_failed ''out'' ''a cat'' (Some 1)
       = (HttpPost # [HttpGetTask, WriteDebug] @ failure_message failed_body, Inr None)"
    by blast
  from a have a1: "get_task_result world_running_twice (JStr ''t1'') 30 30
       = (running_polls 2 30 @ [HttpGetTask, WriteDebug], Some succeeded_body)"
    and a2: "queries (running_polls 2 30 @ [HttpGetTask, WriteDebug]) = 3" by simp_all
  from c have c': "generate_image_wan world_failed ''out'' ''a cat'' (Some 1)
       = ([HttpPost, HttpGetTask, WriteDebug, PrintReason (JStr ''content rejected'')], Inr None)"
    by (simp add: failed_message)
  show ?thesis
    by (intro conjI running_twice_task t r0 r1 running_twice_third(2) a1 a2 b failed_task
        failed_first(2) c')
qed

text \<open>
  Claim C3 as stated fails in its second half: when the first query reports
  \<^verbatim>\<open>FAILED\<close>, \<^verbatim>\<open>generate_image\<close> returns before \<^verbatim>\<open>extract_image_from_result\<close> is
  called, so the number of extraction attempts is 0, not 1.
\<close>

theorem failed_task_counterexample:
  "reports ''FAILED'' (get_task world_failed (JStr ''t1'') 0)
   \<and> generate_image_wan world_failed ''out'' ''a cat'' (Some 1)
       = ([HttpPost, HttpGetTask, WriteDebug, PrintReason (JStr ''content rejected'')], Inr None)
   \<and> extractions [HttpPost, HttpGetTask, WriteDebug, PrintReason (JStr ''content rejected'')] = 0
   \<and> queries [HttpPost, HttpGetTask, WriteDebug, PrintReason (JStr ''content rejected'')] = 1"
proof -
  have "(0::int) < 30" by simp
  from get_task_result_fails[OF this failed_first]
  have p: "get_task_result world_failed (JStr ''t1'') 30 30
             = ([HttpGetTask, WriteDebug] @ failure_message failed_body, None)" .
  have t: "truthy (JStr ''t1'')" by simp
  from wan_after_failure[OF failed_task t p, of "''out''" "Some 1"]
  have g: "generate_image_wan world_failed ''out'' ''a cat'' (Some 1)
       = ([HttpPost, HttpGetTask, WriteDebug, PrintReason (JStr ''content rejected'')], Inr None)"
    by (simp add: failed_message)
  have e: "extractions [HttpPost, HttpGetTask, WriteDebug, PrintReason (JStr ''content rejected'')] = 0"
    and q: "queries [HttpPost, HttpGetTask, WriteDebug, PrintReason (JStr ''content rejected'')] = 1"
    by simp_all
  show ?thesis by (intro conjI failed_first(2) g e q)
qed

section \<open>Properties of the response parsing\<close>

lemma has_truthy_dict: "has_truthy k (JObj kvs) = Some (truthy_at kvs k)"
  by (simp add: has_truthy_def py_and_def truthy_at_def split: option.splits)

lemma slice_content_item:
  "content_item_qwen w content = Some (d, url) \<Longrightarrow> truthy url \<Longrightarrow> py_slice url = Some ()"
  by (cases url)
     (auto simp: content_item_qwen_def py_and_def nothing_def
       split: if_splits Option.bind_splits)

lemma slice_message:
  "message_qwen w message = Some (d, url) \<Longrightarrow> truthy url \<Longrightarrow> py_slice url = Some ()"
  by (auto simp: message_qwen_def nothing_def dest: slice_content_item
       split: if_splits Option.bind_splits)

lemma slice_choice:
  "choice_qwen w choice = Some (d, url) \<Longrightarrow> truthy url \<Longrightarrow> py_slice url = Some ()"
  by (auto simp: choice_qwen_def nothing_def dest: slice_message
       split: if_splits Option.bind_splits)

lemma slice_output:
  "output_shape_qwen w result = Some (d, url) \<Longrightarrow> truthy url \<Longrightarrow> py_slice url = Some ()"
  by (auto simp: output_shape_qwen_def nothing_def dest: slice_choice
       split: if_splits Option.bind_splits)

lemma slice_data:
  "data_shape_qwen w result = Some (d, url) \<Longrightarrow> truthy url \<Longrightarrow> py_slice url = Some ()"
  by (auto simp: data_shape_qwen_def nothing_def
       split: if_splits Option.bind_splits)

lemma slice_images:
  "images_shape_qwen w result = Some (d, url) \<Longrightarrow> truthy url \<Longrightarrow> py_slice url = Some ()"
  by (auto simp: images_shape_qwen_def split: if_splits Option.bind_splits)

lemma slice_parse:
  "parse_response_qwen w result = Some (d, url) \<Longrightarrow> truthy url \<Longrightarrow> py_slice url = Some ()"
  by (auto simp: parse_response_qwen_def nothing_def
       dest: slice_images slice_output slice_data
       split: if_splits Option.bind_splits)

lemma download_events:
  "py_slice url = Some () \<Longrightarrow> truthy url \<Longrightarrow> fst (download_qwen w (d, url)) = [HttpGetImage url]"
  "\<not> truthy url \<Longrightarrow> fst (download_qwen w (d, url)) = []"
  by (simp_all add: download_qwen_def split: response.splits)

lemma qwen_images_first:
  "map_of kvs ''images'' = Some v \<Longrightarrow> truthy v \<Longrightarrow>
   parse_response_qwen w (JObj kvs) = parse_response_qwen w (JObj [(''images'', v)])"
  by (simp add: parse_response_qwen_def has_truthy_dict truthy_at_def images_shape_qwen_def)

lemma qwen_output_second:
  "\<not> truthy_at kvs ''images'' \<Longrightarrow> map_of kvs ''output'' = Some v \<Longrightarrow>
   parse_response_qwen w (JObj kvs) = parse_response_qwen w (JObj [(''output'', v)])"
  by (simp add: parse_response_qwen_def has_truthy_dict truthy_at_def output_shape_qwen_def)

lemma qwen_data_third:
  "\<not> truthy_at kvs ''images'' \<Longrightarrow> map_of kvs ''output'' = None \<Longrightarrow>
   map_of kvs ''data'' = Some v \<Longrightarrow> truthy v \<Longrightarrow>
   parse_response_qwen w (JObj kvs) = parse_response_qwen w (JObj [(''data'', v)])"
  by (simp add: parse_response_qwen_def has_truthy_dict truthy_at_def data_shape_qwen_def)

lemma qwen_no_shape:
  "\<not> truthy_at kvs ''images'' \<Longrightarrow> map_of kvs ''output'' = None \<Longrightarrow>
   \<not> truthy_at kvs ''data'' \<Longrightarrow>
   parse_response_qwen w (JObj kvs) = Some nothing"
  by (simp add: parse_response_qwen_def has_truthy_dict)

lemma seedream_images_first:
  "map_of kvs ''images'' = Some v \<Longrightarrow> truthy v \<Longrightarrow>
   select_seedream (JObj kvs) = select_seedream (JObj [(''images'', v)])"
  by (simp add: select_seedream_def has_truthy_dict truthy_at_def py_and_def)

lemma seedream_data_second:
  "\<not> truthy_at kvs ''images'' \<Longrightarrow> map_of kvs ''data'' = Some v \<Longrightarrow> truthy v \<Longrightarrow>
   select_seedream (JObj kvs) = select_seedream (JObj [(''data'', v)])"
  by (simp add: select_seedream_def has_truthy_dict truthy_at_def py_and_def data_item_seedream_def)

lemma seedream_no_shape:
  "\<not> truthy_at kvs ''images'' \<Longrightarrow> \<not> truthy_at kvs ''data'' \<Longrightarrow>
   select_seedream (JObj kvs) = Some NoSource"
  by (simp add: select_seedream_def has_truthy_dict py_and_def)

lemma seedream_url_fetch:
  "select_seedream result = Some (Url url) \<Longrightarrow>
   fst (parse_response_seedream w result) = [HttpGetImage url]"
  by (simp add: parse_response_seedream_def split: response.splits)

lemma seedream_no_fetch:
  "select_seedream result \<noteq> Some (Url url) \<Longrightarrow>
   HttpGetImage url \<notin> set (fst (parse_response_seedream w result))"
  by (auto simp: parse_response_seedream_def split: option.splits source.splits response.splits)


lemma qwen_images_element:
  "parse_response_qwen w (JObj [(''images'', JArr (first # others))])
     = Some (if is_str first then py_b64decode w first else None, JNull)"
  by (simp add: parse_response_qwen_def has_truthy_dict truthy_at_def images_shape_qwen_def)

lemma qwen_nested_element:
  assumes "map_of okvs ''choices'' = Some (JArr (JObj ckvs # cs))"
    and "map_of ckvs ''message'' = Some (JObj mkvs)"
    and "map_of mkvs ''content'' = Some (JArr (JObj ikvs # items))"
    and "map_of ikvs ''image'' = Some (JStr u)"
  shows "parse_response_qwen w (JObj [(''output'', JObj okvs)])
     = Some (if startswith u ''http'' then None else b64decode w u, JStr u)"
  using assms
  by (simp add: parse_response_qwen_def has_truthy_dict truthy_at_def output_shape_qwen_def
      py_and_def nonempty_def choice_qwen_def message_qwen_def
      content_item_qwen_def startswith_def)

lemma qwen_data_url:
  "map_of ikvs ''url'' = Some (JStr u) \<Longrightarrow>
   parse_response_qwen w (JObj [(''data'', JArr (JObj ikvs # others))]) = Some (None, JStr u)"
  by (simp add: parse_response_qwen_def has_truthy_dict truthy_at_def data_shape_qwen_def
      py_and_def nonempty_def)

lemma qwen_data_b64:
  "map_of ikvs ''url'' = None \<Longrightarrow> map_of ikvs ''b64_json'' = Some (JStr s) \<Longrightarrow>
   parse_response_qwen w (JObj [(''data'', JArr (JObj ikvs # others))]) = Some (b64decode w s, JNull)"
  by (simp add: parse_response_qwen_def has_truthy_dict truthy_at_def data_shape_qwen_def
      py_and_def nonempty_def)

lemma qwen_data_neither:
  "map_of ikvs ''url'' = None \<Longrightarrow> map_of ikvs ''b64_json'' = None \<Longrightarrow>
   parse_response_qwen w (JObj [(''data'', JArr (JObj ikvs # others))]) = Some nothing"
  by (simp add: parse_response_qwen_def has_truthy_dict truthy_at_def data_shape_qwen_def
      py_and_def nonempty_def)

lemma seedream_images_element:
  "select_seedream (JObj [(''images'', JArr (first # others))]) = Some (Inline first)"
  by (simp add: select_seedream_def has_truthy_dict truthy_at_def py_and_def)

lemma seedream_data_b64:
  "map_of ikvs ''b64_json'' = Some v \<Longrightarrow>
   select_seedream (JObj [(''data'', JArr (JObj ikvs # others))]) = Some (Inline v)"
  by (simp add: select_seedream_def has_truthy_dict truthy_at_def py_and_def data_item_seedream_def)

lemma seedream_data_url:
  "map_of ikvs ''b64_json'' = None \<Longrightarrow> map_of ikvs ''url'' = Some url \<Longrightarrow>
   select_seedream (JObj [(''data'', JArr (JObj ikvs # others))]) = Some (Url url)"
  by (simp add: select_seedream_def has_truthy_dict truthy_at_def py_and_def data_item_seedream_def)

lemma seedream_data_neither:
  "map_of ikvs ''b64_json'' = None \<Longrightarrow> map_of ikvs ''url'' = None \<Longrightarrow>
   select_seedream (JObj [(''data'', JArr (JObj ikvs # others))]) = Some NoSource"
  by (simp add: select_seedream_def has_truthy_dict truthy_at_def py_and_def data_item_seedream_def)

lemma seedream_inline_events:
  "select_seedream result = Some (Inline v) \<Longrightarrow>
   parse_response_seedream w result
     = ([], case py_b64decode w v of None \<Rightarrow> Inl OtherError | Some data \<Rightarrow> Inr (Some data))"
  by (simp add: parse_response_seedream_def split: option.splits)


lemma download_200:
  "truthy url \<Longrightarrow> py_slice url = Some () \<Longrightarrow> get_image w url = Response 200 content \<Longrightarrow>
   download_qwen w (d, url) = ([HttpGetImage url], Some content)"
  by (simp add: download_qwen_def)

lemma download_not_200:
  "truthy url \<Longrightarrow> py_slice url = Some () \<Longrightarrow> get_image w url \<noteq> Response 200 content' \<Longrightarrow>
   (\<forall>content. get_image w url \<noteq> Response 200 content) \<Longrightarrow>
   download_qwen w (d, url) = ([HttpGetImage url], d)"
  by (auto simp: download_qwen_def split: response.splits)

lemma seedream_url_result:
  "select_seedream result = Some (Url url) \<Longrightarrow>
   parse_response_seedream w result
     = ([HttpGetImage url],
        case get_image w url of Raises e \<Rightarrow> Inl e | Response status content \<Rightarrow> Inr (Some content))"
  by (simp add: parse_response_seedream_def split: response.splits)

text \<open>
  Claim C4, as amended. In \<^verbatim>\<open>qwen-image-plus.py\<close> a JSON object is inspected in the
  fixed order (a) \<^verbatim>\<open>images\<close> with a truthy value, (b) \<^verbatim>\<open>output\<close> present, (c) \<^verbatim>\<open>data\<close>
  with a truthy value; the first of these tests that passes selects the only shape that
  is examined, and the entries of the other keys do not change the result; when none
  passes nothing is found. Shape (a) decodes the first element of the list when it is a
  string. Shape (b) reads the first element of \<^verbatim>\<open>choices\<close> and the first element of its
  \<^verbatim>\<open>message.content\<close>, and takes the \<^verbatim>\<open>image\<close> of that as a URL when it starts with
  "http" and decodes it as base64 otherwise. Shape (c) reads the first element of
  \<^verbatim>\<open>data\<close>: its \<^verbatim>\<open>url\<close> when it has that key, whether or not it has \<^verbatim>\<open>b64_json\<close>, and
  its decoded \<^verbatim>\<open>b64_json\<close> only when it has no \<^verbatim>\<open>url\<close>. After parsing,
  \<^verbatim>\<open>requests.get\<close> is called once on \<^verbatim>\<open>image_url\<close> exactly when it is truthy, and an
  answer with status 200 gives the image bytes. In \<^verbatim>\<open>seedream3.0&4.0.py\<close> only (a)
  and (c) are inspected, in that order, and \<^verbatim>\<open>output\<close> is never looked at; under
  \<^verbatim>\<open>data\<close> the first element's \<^verbatim>\<open>b64_json\<close> is decoded when it has that key, whether
  or not it has \<^verbatim>\<open>url\<close>, and its \<^verbatim>\<open>url\<close> is fetched only when it has no \<^verbatim>\<open>b64_json\<close>;
  the content of that download is taken whatever its status.
\<close>

theorem response_shapes_in_order:
  "(map_of kvs ''images'' = Some v \<and> truthy v \<longrightarrow>
      parse_response_qwen w (JObj kvs) = parse_response_qwen w (JObj [(''images'', v)]))
   \<and> (\<not> truthy_at kvs ''images'' \<and> map_of kvs ''output'' = Some v \<longrightarrow>
      parse_response_qwen w (JObj kvs) = parse_response_qwen w (JObj [(''output'', v)]))
   \<and> (\<not> truthy_at kvs ''images'' \<and> map_of kvs ''output'' = None
        \<and> map_of kvs ''data'' = Some v \<and> truthy v \<longrightarrow>
      parse_response_qwen w (JObj kvs) = parse_response_qwen w (JObj [(''data'', v)]))
   \<and> (\<not> truthy_at kvs ''images'' \<and> map_of kvs ''output'' = None \<and> \<not> truthy_at kvs ''data'' \<longrightarrow>
      parse_response_qwen w (JObj kvs) = Some nothing)
   \<and> parse_response_qwen w (JObj [(''images'', JArr (first # others))])
       = Some (if is_str first then py_b64decode w first else None, JNull)
   \<and> (map_of okvs ''choices'' = Some (JArr (JObj ckvs # cs))
        \<and> map_of ckvs ''message'' = Some (JObj mkvs)
        \<and> map_of mkvs ''content'' = Some (JArr (JObj ikvs # items))
        \<and> map_of ikvs ''image'' = Some (JStr u) \<longrightarrow>
      parse_response_qwen w (JObj [(''output'', JObj okvs)])
        = Some (if startswith u ''http'' then None else b64decode w u, JStr u))
   \<and> (map_of dkvs ''url'' = Some (JStr u) \<longrightarrow>
      parse_response_qwen w (JObj [(''data'', JArr (JObj dkvs # others))]) = Some (None, JStr u))
   \<and> (map_of dkvs ''url'' = None \<and> map_of dkvs ''b64_json'' = Some (JStr s) \<longrightarrow>
      parse_response_qwen w (JObj [(''data'', JArr (JObj dkvs # others))]) = Some (b64decode w s, JNull))
   \<and> (map_of dkvs ''url'' = None \<and> map_of dkvs ''b64_json'' = None \<longrightarrow>
      parse_response_qwen w (JObj [(''data'', JArr (JObj dkvs # others))]) = Some nothing)
   \<and> (parse_response_qwen w result = Some (image_data, image_url) \<longrightarrow>
      fst (download_qwen w (image_data, image_url))
        = (if truthy image_url then [HttpGetImage image_url] else []))
   \<and> (parse_response_qwen w result = Some (image_data, image_url) \<and> truthy image_url
        \<and> get_image w image_url = Response 200 content \<longrightarrow>
      download_qwen w (image_data, image_url) = ([HttpGetImage image_url], Some content))
   \<and> (map_of kvs ''images'' = Some v \<and> truthy v \<longrightarrow>
      select_seedream (JObj kvs) = select_seedream (JObj [(''images'', v)]))
   \<and> (\<not> truthy_at kvs ''images'' \<and> map_of kvs ''data'' = Some v \<and> truthy v \<longrightarrow>
      select_seedream (JObj kvs) = select_seedream (JObj [(''data'', v)]))
   \<and> (\<not> truthy_at kvs ''images'' \<and> \<not> truthy_at kvs ''data'' \<longrightarrow>
      select_seedream (JObj kvs) = Some NoSource)
   \<and> select_seedream (JObj [(''images'', JArr (first # others))]) = Some (Inline first)
   \<and> (map_of dkvs ''b64_json'' = Some v \<longrightarrow>
      select_seedream (JObj [(''data'', JArr (JObj dkvs # others))]) = Some (Inline v))
   \<and> (map_of dkvs ''b64_json'' = None \<and> map_of dkvs ''url'' = Some url \<longrightarrow>
      select_seedream (JObj [(''data'', JArr (JObj dkvs # others))]) = Some (Url url))
   \<and> (map_of dkvs ''b64_json'' = None \<and> map_of dkvs ''url'' = None \<longrightarrow>
      select_seedream (JObj [(''data'', JArr (JObj dkvs # others))]) = Some NoSource)
   \<and> (select_seedream result = Some (Inline v) \<longrightarrow>
      parse_response_seedream w result
        = ([], case py_b64decode w v of None \<Rightarrow> Inl OtherError | Some data \<Rightarrow> Inr (Some data)))
   \<and> (select_seedream result = Some (Url url) \<longrightarrow>
      parse_response_seedream w result
        = ([HttpGetImage url],
           case get_image w url of Raises e \<Rightarrow> Inl e
           | Response status content \<Rightarrow> Inr (Some content)))"
proof (intro conjI impI; (elim conjE)?)
  show "parse_response_qwen w (JObj [(''images'', JArr (first # others))])
       = Some (if is_str first then py_b64decode w first else None, JNull)"
    by (rule qwen_images_element)
  show "select_seedream (JObj [(''images'', JArr (first # others))]) = Some (Inline first)"
    by (rule seedream_images_element)
next
  assume "map_of kvs ''images'' = Some v" "truthy v"
  then show "parse_response_qwen w (JObj kvs) = parse_response_qwen w (JObj [(''images'', v)])"
    by (rule qwen_images_first)
next
  assume "\<not> truthy_at kvs ''images''" "map_of kvs ''output'' = Some v"
  then show "parse_response_qwen w (JObj kvs) = parse_response_qwen w (JObj [(''output'', v)])"
    by (rule qwen_output_second)
next
  assume "\<not> truthy_at kvs ''images''" "map_of kvs ''output'' = None"
    "map_of kvs ''data'' = Some v" "truthy v"
  then show "parse_response_qwen w (JObj kvs) = parse_response_qwen w (JObj [(''data'', v)])"
    by (rule qwen_data_third)
next
  assume "\<not> truthy_at kvs ''images''" "map_of kvs ''output'' = None" "\<not> truthy_at kvs ''data''"
  then show "parse_response_qwen w (JObj kvs) = Some nothing"
    by (rule qwen_no_shape)
next
  assume "map_of okvs ''choices'' = Some (JArr (JObj ckvs # cs))"
    "map_of ckvs ''message'' = Some (JObj mkvs)"
    "map_of mkvs ''content'' = Some (JArr (JObj ikvs # items))"
    "map_of ikvs ''image'' = Some (JStr u)"
  then show "parse_response_qwen w (JObj [(''output'', JObj okvs)])
        = Some (if startswith u ''http'' then None else b64decode w u, JStr u)"
    by (rule qwen_nested_element)
next
  assume "map_of dkvs ''url'' = Some (JStr u)"
  then show "parse_response_qwen w (JObj [(''data'', JArr (JObj dkvs # others))]) = Some (None, JStr u)"
    by (rule qwen_data_url)
next
  assume "map_of dkvs ''url'' = None" "map_of dkvs ''b64_json'' = Some (JStr s)"
  then show "parse_response_qwen w (JObj [(''data'', JArr (JObj dkvs # others))])
       = Some (b64decode w s, JNull)"
    by (rule qwen_data_b64)
next
  assume "map_of dkvs ''url'' = None" "map_of dkvs ''b64_json'' = None"
  then show "parse_response_qwen w (JObj [(''data'', JArr (JObj dkvs # others))]) = Some nothing"
    by (rule qwen_data_neither)
next
  assume p: "parse_response_qwen w result = Some (image_data, image_url)"
  show "fst (download_qwen w (image_data, image_url))
        = (if truthy image_url then [HttpGetImage image_url] else [])"
    using slice_parse[OF p] by (simp add: download_events)
next
  assume p: "parse_response_qwen w result = Some (image_data, image_url)"
    and t: "truthy image_url" and g: "get_image w image_url = Response 200 content"
  show "download_qwen w (image_data, image_url) = ([HttpGetImage image_url], Some content)"
    by (rule download_200[OF t slice_parse[OF p t] g])
next
  assume "map_of kvs ''images'' = Some v" "truthy v"
  then show "select_seedream (JObj kvs) = select_seedream (JObj [(''images'', v)])"
    by (rule seedream_images_first)
next
  assume "\<not> truthy_at kvs ''images''" "map_of kvs ''data'' = Some v" "truthy v"
  then show "select_seedream (JObj kvs) = select_seedream (JObj [(''data'', v)])"
    by (rule seedream_data_second)
next
  assume "\<not> truthy_at kvs ''images''" "\<not> truthy_at kvs ''data''"
  then show "select_seedream (JObj kvs) = Some NoSource"
    by (rule seedream_no_shape)
next
  assume "map_of dkvs ''b64_json'' = Some v"
  then show "select_seedream (JObj [(''data'', JArr (JObj dkvs # others))]) = Some (Inline v)"
    by (rule seedream_data_b64)
next
  assume "map_of dkvs ''b64_json'' = None" "map_of dkvs ''url'' = Some url"
  then show "select_seedream (JObj [(''data'', JArr (JObj dkvs # others))]) = Some (Url url)"
    by (rule seedream_data_url)
next
  assume "map_of dkvs ''b64_json'' = None" "map_of dkvs ''url'' = None"
  then show "select_seedream (JObj [(''data'', JArr (JObj dkvs # others))]) = Some NoSource"
    by (rule seedream_data_neither)
next
  assume "select_seedream result = Some (Inline v)"
  then show "parse_response_seedream w result
        = ([], case py_b64decode w v of None \<Rightarrow> Inl OtherError | Some data \<Rightarrow> Inr (Some data))"
    by (rule seedream_inline_events)
next
  assume "select_seedream result = Some (Url url)"
  then show "parse_response_seedream w result
        = ([HttpGetImage url],
           case get_image w url of Raises e \<Rightarrow> Inl e
           | Response status content \<Rightarrow> Inr (Some content))"
    by (rule seedream_url_result)
qed


theorem response_shapes_in_order_witness:
  "parse_response_qwen world_rate_limited mixed_body = Some (None, JNull)
   \<and> select_seedream mixed_body = Some (Inline (JNum 5))
   \<and> parse_response_qwen world_rate_limited nested_url_body = Some (None, JStr ''https://example.com/a.png'')
   \<and> download_qwen world_rate_limited (None, JStr ''https://example.com/a.png'')
       = ([HttpGetImage (JStr ''https://example.com/a.png'')], Some ''PNG'')
   \<and> parse_response_qwen world_rate_limited both_body = Some (None, JStr ''https://example.com/a.png'')
   \<and> select_seedream both_body = Some (Inline (JStr ''UE5H''))
   \<and> parse_response_seedream world_rate_limited both_body = ([], Inr (Some ''PNG''))
   \<and> select_seedream data_url_body = Some (Url (JStr ''https://example.com/a.png''))
   \<and> parse_response_seedream world_rate_limited data_url_body
       = ([HttpGetImage (JStr ''https://example.com/a.png'')], Inr (Some ''PNG''))
   \<and> parse_response_qwen world_rate_limited b64_body = Some (Some ''PNG'', JNull)
   \<and> parse_response_qwen world_rate_limited other_body = Some nothing
   \<and> select_seedream other_body = Some NoSource
   \<and> parse_response_qwen world_rate_limited (JObj [(''code'', JStr ''x'')]) = Some nothing
   \<and> select_seedream (JObj [(''code'', JStr ''x'')]) = Some NoSource
   \<and> parse_response_qwen world_rate_limited falsy_images_body = Some nothing
   \<and> parse_response_qwen world_rate_limited null_images_body
       = Some (None, JStr ''https://example.com/a.png'')
   \<and> select_seedream null_images_body = Some (Url (JStr ''https://example.com/a.png''))"
proof -
  note T = response_shapes_in_order[where w = world_rate_limited]
  have w: "b64decode world_rate_limited = decode_example"
    "get_image world_rate_limited = image_example"
    by (simp_all add: world_rate_limited_def)
  have a1: "parse_response_qwen world_rate_limited mixed_body = Some (None, JNull)"
    and a2: "select_seedream mixed_body = Some (Inline (JNum 5))"
    using T[where kvs = "[(''images'', JArr [JNum 5]), (''output'', JObj []),
           (''data'', JArr [JObj [(''url'', JStr ''https://example.com/a.png'')]])]"
          and v = "JArr [JNum 5]" and first = "JNum 5" and others = "[]"]
    by (simp_all add: mixed_body_def)
  have b1: "parse_response_qwen world_rate_limited nested_url_body = Some (None, JStr ''https://example.com/a.png'')"
    using T[where okvs = "[(''choices'', JArr [JObj [(''message'',
              JObj [(''content'', JArr [JObj [(''image'', JStr ''https://example.com/a.png'')]])])]])]"
          and ckvs = "[(''message'',
              JObj [(''content'', JArr [JObj [(''image'', JStr ''https://example.com/a.png'')]])])]"
          and cs = "[]"
          and mkvs = "[(''content'', JArr [JObj [(''image'', JStr ''https://example.com/a.png'')]])]"
          and ikvs = "[(''image'', JStr ''https://example.com/a.png'')]" and items = "[]"
          and u = "''https://example.com/a.png''"]
    by (simp add: nested_url_body_def startswith_def)
  have b2: "download_qwen world_rate_limited (None, JStr ''https://example.com/a.png'')
       = ([HttpGetImage (JStr ''https://example.com/a.png'')], Some ''PNG'')"
    using T[where result = nested_url_body and image_data = None
          and image_url = "JStr ''https://example.com/a.png''" and content = "''PNG''"] b1
    by (simp add: w image_example_def)
  have c1: "parse_response_qwen world_rate_limited both_body = Some (None, JStr ''https://example.com/a.png'')"
    and c2: "select_seedream both_body = Some (Inline (JStr ''UE5H''))"
    using T[where dkvs = "[(''url'', JStr ''https://example.com/a.png''), (''b64_json'', JStr ''UE5H'')]"
          and others = "[JObj [(''url'', JStr ''https://example.com/b.png'')]]"
          and u = "''https://example.com/a.png''" and v = "JStr ''UE5H''"]
    by (simp_all add: both_body_def)
  have c3: "parse_response_seedream world_rate_limited both_body = ([], Inr (Some ''PNG''))"
    using T[where result = both_body and v = "JStr ''UE5H''"] c2
    by (simp add: w decode_example_def)
  have d1: "select_seedream data_url_body = Some (Url (JStr ''https://example.com/a.png''))"
    using T[where dkvs = "[(''url'', JStr ''https://example.com/a.png'')]" and others = "[]"
          and url = "JStr ''https://example.com/a.png''"]
    by (simp add: data_url_body_def)
  have d2: "parse_response_seedream world_rate_limited data_url_body
       = ([HttpGetImage (JStr ''https://example.com/a.png'')], Inr (Some ''PNG''))"
    using T[where result = data_url_body and url = "JStr ''https://example.com/a.png''"] d1
    by (simp add: w image_example_def)
  have e1: "parse_response_qwen world_rate_limited b64_body = Some (Some ''PNG'', JNull)"
    using T[where dkvs = "[(''b64_json'', JStr ''UE5H'')]" and others = "[]" and s = "''UE5H''"]
    by (simp add: b64_body_def w decode_example_def)
  have f1: "parse_response_qwen world_rate_limited other_body = Some nothing"
    and f2: "select_seedream other_body = Some NoSource"
    using T[where dkvs = "[(''revised_prompt'', JStr ''a cat'')]" and others = "[]"]
    by (simp_all add: other_body_def)
  have g1: "parse_response_qwen world_rate_limited (JObj [(''code'', JStr ''x'')]) = Some nothing"
    and g2: "select_seedream (JObj [(''code'', JStr ''x'')]) = Some NoSource"
    using T[where kvs = "[(''code'', JStr ''x'')]"]
    by (simp_all add: truthy_at_def)
  have h0: "parse_response_qwen world_rate_limited (JObj [(''output'', JObj [])]) = Some nothing"
    by code_simp
  have h1: "parse_response_qwen world_rate_limited falsy_images_body = Some nothing"
    using T[where kvs = "[(''images'', JArr []), (''output'', JObj []),
           (''data'', JArr [JObj [(''url'', JStr ''https://example.com/a.png'')]])]"
          and v = "JObj []"] h0
    by (simp add: falsy_images_body_def truthy_at_def)
  have i0: "parse_response_qwen world_rate_limited data_url_body
              = Some (None, JStr ''https://example.com/a.png'')"
    using T[where dkvs = "[(''url'', JStr ''https://example.com/a.png'')]" and others = "[]"
          and u = "''https://example.com/a.png''"]
    by (simp add: data_url_body_def)
  have i1: "parse_response_qwen world_rate_limited null_images_body
       = Some (None, JStr ''https://example.com/a.png'')"
    and i2: "select_seedream null_images_body = Some (Url (JStr ''https://example.com/a.png''))"
    using T[where kvs = "[(''images'', JNull),
           (''data'', JArr [JObj [(''url'', JStr ''https://example.com/a.png'')]])]"
          and v = "JArr [JObj [(''url'', JStr ''https://example.com/a.png'')]]"] i0 d1
    by (simp_all add: null_images_body_def truthy_at_def data_url_body_def)
  show ?thesis
    by (intro conjI a1 a2 b1 b2 c1 c2 c3 d1 d2 e1 f1 f2 g1 g2 h1 i1 i2)
qed


text \<open>
  Claim C4 as stated fails for \<^verbatim>\<open>seedream3.0&4.0.py\<close>: a body of the nested shape with
  an HTTP URL matches neither of its two shapes, so nothing is fetched and the attempt
  ends without an image, while \<^verbatim>\<open>qwen-image-plus.py\<close> downloads and saves it.
\<close>

theorem seedream_nested_shape_counterexample:
  "select_seedream nested_url_body = Some NoSource
   \<and> on_200_seedream world_rate_limited ''out'' 1 (Json nested_url_body) = ([], Inr FallThrough)
   \<and> on_200_qwen world_rate_limited ''out'' 1 (Json nested_url_body)
       = ([WriteDebug, HttpGetImage (JStr ''https://example.com/a.png''),
           SaveImage ''out/row_0001.png''], Inr (Return ''out/row_0001.png''))"
proof -
  have s: "select_seedream nested_url_body = Some NoSource" by code_simp
  have t: "on_200_seedream world_rate_limited ''out'' 1 (Json nested_url_body) = ([], Inr FallThrough)"
    by code_simp
  have q: "on_200_qwen world_rate_limited ''out'' 1 (Json nested_url_body)
       = ([WriteDebug, HttpGetImage (JStr ''https://example.com/a.png''),
           SaveImage ''out/row_0001.png''], Inr (Return ''out/row_0001.png''))"
    by code_simp
  show ?thesis by (intro conjI s t q)
qed


end
